theory Spec2Isabelle
  imports Complex_Main
begin

section \<open>Dates and the clock\<close>

text \<open>
  The matching service (\<^verbatim>\<open>src/lib/matching.ts\<close>) reads four getters of a JavaScript
  \<^verbatim>\<open>Date\<close>: \<^verbatim>\<open>getFullYear()\<close>, \<^verbatim>\<open>getMonth()\<close>, \<^verbatim>\<open>getDate()\<close> and \<^verbatim>\<open>getTime()\<close>
  (milliseconds since the epoch). A \<^verbatim>\<open>Date\<close> is modelled by the values of these four
  getters. A date string that does not parse gives an Invalid Date, whose getters all
  return NaN; it is modelled by \<open>None\<close>. The profile fields \<^verbatim>\<open>birth_date\<close> and
  \<^verbatim>\<open>last_active\<close> are kept as the \<^verbatim>\<open>Date\<close> that \<^verbatim>\<open>new Date(string)\<close> builds from them.

  \<^verbatim>\<open>new Date()\<close> and \<^verbatim>\<open>Date.now()\<close> read the ambient clock. The clock reading is an
  explicit argument \<open>now\<close> of every function that reads it.
\<close>

record jsdate =
  getFullYear :: int
  getMonth :: int
  getDate :: int
  getTime :: int

section \<open>Profiles and preferences\<close>

datatype Gender = Male | Female

record UserProfile =
  p_id :: string
  full_name :: string
  avatar_url :: "string option"
  birth_date :: "jsdate option"
  gender :: Gender
  country :: string
  city :: "string option"
  occupation :: "string option"
  bio :: "string option"
  interests :: "string list"
  languages :: "string list"
  education_level :: "string option"
  height :: "int option"
  verification_status :: string
  is_premium :: bool
  last_active :: "jsdate option"

record MatchingPreferences =
  pref_user_id :: string
  min_age :: int
  max_age :: int
  preferred_countries :: "string list"
  preferred_education :: "string list"
  preferred_occupation :: "string list"
  max_distance :: "int option"

section \<open>JavaScript helpers\<close>

text \<open>\<^verbatim>\<open>Array.prototype.includes\<close> on an array of strings.\<close>

definition js_includes :: "string list \<Rightarrow> string \<Rightarrow> bool" where
  "js_includes xs x = (x \<in> set xs)"

text \<open>
  Truthiness of an optional string field: \<^verbatim>\<open>undefined\<close>, \<^verbatim>\<open>null\<close> and the empty
  string are falsy.
\<close>

definition truthy :: "string option \<Rightarrow> bool" where
  "truthy v = (case v of None \<Rightarrow> False | Some s \<Rightarrow> s \<noteq> [])"

text \<open>
  \<^verbatim>\<open>Math.round\<close> rounds to the nearest integer, halves upwards. The quotient it is
  applied to is computed here in exact rationals; the IEEE double the runtime computes
  differs from it by far less than one half, which the rounding absorbs.
\<close>

definition js_round :: "rat \<Rightarrow> int" where
  "js_round x = \<lfloor>x + 1 / 2\<rfloor>"

section \<open>Compatibility score\<close>

text \<open>
  \<^verbatim>\<open>calculateAge\<close> (matching.ts, lines 62-73). \<open>None\<close> is the NaN that an Invalid
  Date produces.
\<close>

definition calculateAge :: "jsdate \<Rightarrow> jsdate option \<Rightarrow> int option" where
  "calculateAge today birthDate =
     (case birthDate of
        None \<Rightarrow> None
      | Some birth \<Rightarrow>
          (let age = getFullYear today - getFullYear birth;
               monthDiff = getMonth today - getMonth birth
           in Some (if monthDiff < 0 \<or> (monthDiff = 0 \<and> getDate today < getDate birth)
                    then age - 1 else age)))"

text \<open>The two \<^verbatim>\<open>filter\<close> calls of lines 111-113 and 118-120.\<close>

definition commonInterests :: "UserProfile \<Rightarrow> UserProfile \<Rightarrow> string list" where
  "commonInterests user candidate =
     filter (\<lambda>interest. js_includes (interests candidate) interest) (interests user)"

definition commonLanguages :: "UserProfile \<Rightarrow> UserProfile \<Rightarrow> string list" where
  "commonLanguages user candidate =
     filter (\<lambda>lang. js_includes (languages candidate) lang) (languages user)"

text \<open>
  \<^verbatim>\<open>daysSinceActive\<close> (line 126): a quotient of milliseconds, NaN (\<open>None\<close>) when
  \<^verbatim>\<open>last_active\<close> is an Invalid Date.
\<close>

definition daysSinceActive :: "jsdate \<Rightarrow> UserProfile \<Rightarrow> rat option" where
  "daysSinceActive now candidate =
     (case last_active candidate of
        None \<Rightarrow> None
      | Some lastActive \<Rightarrow>
          Some (of_int (getTime now - getTime lastActive) / of_int (1000 * 60 * 60 * 24)))"

text \<open>
  The body of \<^verbatim>\<open>calculateCompatibilityScore\<close> (lines 77-131) up to the final
  rounding: the two accumulators \<^verbatim>\<open>score\<close> and \<^verbatim>\<open>maxScore\<close>, updated block by block
  in the order of the source. A comparison with NaN is false, so a \<open>None\<close> age earns
  nothing and a \<open>None\<close> number of days falls to the last \<^verbatim>\<open>else\<close>.
\<close>

definition scoreAccumulators ::
  "jsdate \<Rightarrow> UserProfile \<Rightarrow> UserProfile \<Rightarrow> MatchingPreferences option \<Rightarrow> int \<times> int" where
  "scoreAccumulators now user candidate preferences =
     (let score = 0;
          maxScore = 0;
          maxScore = maxScore + 25;
          score =
            (case preferences of
               None \<Rightarrow> score
             | Some prefs \<Rightarrow>
                 (case calculateAge now (birth_date candidate) of
                    None \<Rightarrow> score
                  | Some candidateAge \<Rightarrow>
                      if candidateAge \<ge> min_age prefs \<and> candidateAge \<le> max_age prefs
                      then score + 25 else score));
          maxScore = maxScore + 20;
          score =
            (case preferences of
               None \<Rightarrow> score + 10
             | Some prefs \<Rightarrow>
                 if length (preferred_countries prefs) > 0
                 then (if js_includes (preferred_countries prefs) (country candidate)
                       then score + 20 else score)
                 else score + 10);
          maxScore = maxScore + 15;
          score =
            (if (case preferences of
                   None \<Rightarrow> False
                 | Some prefs \<Rightarrow>
                     length (preferred_education prefs) > 0 \<and> truthy (education_level candidate))
             then (case preferences of
                     None \<Rightarrow> score
                   | Some prefs \<Rightarrow>
                       (case education_level candidate of
                          None \<Rightarrow> score
                        | Some level \<Rightarrow>
                            if js_includes (preferred_education prefs) level
                            then score + 15 else score))
             else if truthy (education_level candidate) then score + 7
             else score);
          maxScore = maxScore + 20;
          score = score + min 20 (int (length (commonInterests user candidate)) * 4);
          maxScore = maxScore + 10;
          score = score + min 10 (int (length (commonLanguages user candidate)) * 5);
          maxScore = maxScore + 10;
          score =
            (case daysSinceActive now candidate of
               None \<Rightarrow> score + 2
             | Some days \<Rightarrow>
                 if days \<le> 1 then score + 10
                 else if days \<le> 7 then score + 7
                 else if days \<le> 30 then score + 5
                 else score + 2)
      in (score, maxScore))"

text \<open>\<^verbatim>\<open>calculateCompatibilityScore\<close> (lines 76-134), with the rounding of line 133.\<close>

definition calculateCompatibilityScore ::
  "jsdate \<Rightarrow> UserProfile \<Rightarrow> UserProfile \<Rightarrow> MatchingPreferences option \<Rightarrow> int" where
  "calculateCompatibilityScore now user candidate preferences =
     (case scoreAccumulators now user candidate preferences of
        (score, maxScore) \<Rightarrow> js_round ((of_int score / of_int maxScore) * 100))"

text \<open>
  The six factors, one per commented block of the source, each as the amount its block
  adds to \<^verbatim>\<open>score\<close>.
\<close>

definition agePoints :: "jsdate \<Rightarrow> UserProfile \<Rightarrow> MatchingPreferences option \<Rightarrow> int" where
  "agePoints now candidate preferences =
     (case preferences of
        None \<Rightarrow> 0
      | Some prefs \<Rightarrow>
          (case calculateAge now (birth_date candidate) of
             None \<Rightarrow> 0
           | Some candidateAge \<Rightarrow>
               if candidateAge \<ge> min_age prefs \<and> candidateAge \<le> max_age prefs then 25 else 0))"

definition countryPoints :: "UserProfile \<Rightarrow> MatchingPreferences option \<Rightarrow> int" where
  "countryPoints candidate preferences =
     (case preferences of
        None \<Rightarrow> 10
      | Some prefs \<Rightarrow>
          if length (preferred_countries prefs) > 0
          then (if js_includes (preferred_countries prefs) (country candidate) then 20 else 0)
          else 10)"

definition educationPoints :: "UserProfile \<Rightarrow> MatchingPreferences option \<Rightarrow> int" where
  "educationPoints candidate preferences =
     (case education_level candidate of
        None \<Rightarrow> 0
      | Some level \<Rightarrow>
          if level = [] then 0
          else (case preferences of
                  None \<Rightarrow> 7
                | Some prefs \<Rightarrow>
                    if length (preferred_education prefs) > 0
                    then (if js_includes (preferred_education prefs) level then 15 else 0)
                    else 7))"

definition interestPoints :: "UserProfile \<Rightarrow> UserProfile \<Rightarrow> int" where
  "interestPoints user candidate = min 20 (4 * int (length (commonInterests user candidate)))"

definition languagePoints :: "UserProfile \<Rightarrow> UserProfile \<Rightarrow> int" where
  "languagePoints user candidate = min 10 (5 * int (length (commonLanguages user candidate)))"

definition activityPoints :: "jsdate \<Rightarrow> UserProfile \<Rightarrow> int" where
  "activityPoints now candidate =
     (case daysSinceActive now candidate of
        None \<Rightarrow> 2
      | Some days \<Rightarrow>
          if days \<le> 1 then 10 else if days \<le> 7 then 7 else if days \<le> 30 then 5 else 2)"

section \<open>Recommendations\<close>

text \<open>
  \<^verbatim>\<open>getRecommendations\<close> (matching.ts, lines 137-218) sends five queries to the
  database and ranks the rows the last one returns. The answers of the database are
  inputs of the model: each is the \<^verbatim>\<open>data\<close> (\<open>None\<close> for \<^verbatim>\<open>null\<close>) and, where the
  source reads it, the \<^verbatim>\<open>error\<close> of one query.
\<close>

record RecommendationResponses =
  currentUser :: "UserProfile option"
  userError :: bool
  preferencesData :: "MatchingPreferences option"
  preferencesError :: bool
  existingMatches :: "(string \<times> string) list option"
  blocks :: "string list option"
  candidates :: "UserProfile list option"
  candidatesError :: bool

text \<open>\<^verbatim>\<open>getUserPreferences\<close> (lines 34-47): \<^verbatim>\<open>null\<close> on an error.\<close>

definition getUserPreferences :: "RecommendationResponses \<Rightarrow> MatchingPreferences option" where
  "getUserPreferences resp = (if preferencesError resp then None else preferencesData resp)"

text \<open>
  A JavaScript \<^verbatim>\<open>Set\<close> of strings keeps its elements in insertion order, each once.
\<close>

definition set_add :: "string list \<Rightarrow> string \<Rightarrow> string list" where
  "set_add s x = (if x \<in> set s then s else s @ [x])"

text \<open>
  \<^verbatim>\<open>excludeIds\<close> (lines 164-172). A row of \<^verbatim>\<open>existingMatches\<close> is the pair
  \<^verbatim>\<open>(user1_id, user2_id)\<close>, a row of \<^verbatim>\<open>blocks\<close> is its \<^verbatim>\<open>blocked_id\<close>; the optional
  chaining \<^verbatim>\<open>?.forEach\<close> skips a \<^verbatim>\<open>null\<close> answer.
\<close>

definition excludeIds ::
  "string \<Rightarrow> (string \<times> string) list option \<Rightarrow> string list option \<Rightarrow> string list" where
  "excludeIds userId existingMatchRows blockRows =
     (let excluded = [userId];
          excluded =
            (case existingMatchRows of
               None \<Rightarrow> excluded
             | Some rows \<Rightarrow>
                 foldl (\<lambda>acc mt. set_add acc (if fst mt = userId then snd mt else fst mt))
                   excluded rows);
          excluded =
            (case blockRows of
               None \<Rightarrow> excluded
             | Some rows \<Rightarrow> foldl set_add excluded rows)
      in excluded)"

text \<open>
  The candidate query (lines 175-198) as the filters it carries. The two bounds of the
  age window (\<^verbatim>\<open>minBirthDate\<close> first, then \<^verbatim>\<open>maxBirthDate\<close>) are kept as the arguments
  of the \<^verbatim>\<open>Date\<close> constructor that builds them (year, month, day); a number is truthy
  when it is not zero.
\<close>

record CandidateQuery =
  q_neq_gender :: Gender
  q_eq_verification_status :: string
  q_not_in_ids :: "string list"
  q_limit :: int
  q_birth_window :: "((int \<times> int \<times> int) \<times> (int \<times> int \<times> int)) option"
  q_in_countries :: "string list option"

definition candidateQuery ::
  "jsdate \<Rightarrow> string \<Rightarrow> int \<Rightarrow> UserProfile \<Rightarrow> RecommendationResponses \<Rightarrow> CandidateQuery" where
  "candidateQuery today userId limit user resp =
     \<lparr> q_neq_gender = gender user,
       q_eq_verification_status = ''verified'',
       q_not_in_ids = excludeIds userId (existingMatches resp) (blocks resp),
       q_limit = limit * 2,
       q_birth_window =
         (case getUserPreferences resp of
            None \<Rightarrow> None
          | Some prefs \<Rightarrow>
              if min_age prefs \<noteq> 0 \<and> max_age prefs \<noteq> 0
              then Some ((getFullYear today - max_age prefs - 1, getMonth today, getDate today),
                         (getFullYear today - min_age prefs, getMonth today, getDate today))
              else None),
       q_in_countries =
         (case getUserPreferences resp of
            None \<Rightarrow> None
          | Some prefs \<Rightarrow>
              if length (preferred_countries prefs) > 0
              then Some (preferred_countries prefs) else None) \<rparr>"

text \<open>A candidate with the \<^verbatim>\<open>compatibilityScore\<close> that line 212 attaches to it.\<close>

record ScoredCandidate =
  profile :: UserProfile
  compatibilityScore :: int

text \<open>
  \<^verbatim>\<open>Array.prototype.slice(0, end)\<close> for an integer \<^verbatim>\<open>end\<close>: a negative \<^verbatim>\<open>end\<close>
  counts from the end of the array.
\<close>

definition js_slice0 :: "int \<Rightarrow> 'a list \<Rightarrow> 'a list" where
  "js_slice0 end_ix xs =
     (if end_ix < 0 then take (nat (int (length xs) + end_ix)) xs else take (nat end_ix) xs)"

text \<open>
  Lines 210-217. \<^verbatim>\<open>Array.prototype.sort\<close> is stable, and the comparator
  \<^verbatim>\<open>b.compatibilityScore - a.compatibilityScore\<close> orders by descending score:
  a stable sort on the negated score.
\<close>

definition rankCandidates ::
  "jsdate \<Rightarrow> int \<Rightarrow> UserProfile \<Rightarrow> MatchingPreferences option \<Rightarrow> UserProfile list
     \<Rightarrow> ScoredCandidate list" where
  "rankCandidates now limit user preferences cands =
     (let scoredCandidates =
            map (\<lambda>candidate.
                   \<lparr> profile = candidate,
                     compatibilityScore =
                       calculateCompatibilityScore now user candidate preferences \<rparr>)
              cands
      in js_slice0 limit (sort_key (\<lambda>c. - compatibilityScore c) scoredCandidates))"

definition getRecommendations ::
  "jsdate \<Rightarrow> string \<Rightarrow> int \<Rightarrow> RecommendationResponses \<Rightarrow> ScoredCandidate list" where
  "getRecommendations now userId limit resp =
     (if userError resp then []
      else
        (case currentUser resp of
           None \<Rightarrow> []
         | Some user \<Rightarrow>
             (let preferences = getUserPreferences resp
              in if candidatesError resp then []
                 else
                   (case candidates resp of
                      None \<Rightarrow> []
                    | Some cands \<Rightarrow> rankCandidates now limit user preferences cands))))"

section \<open>Likes, passes and chat rooms\<close>

text \<open>
  The tables \<^verbatim>\<open>matches\<close> and \<^verbatim>\<open>chat_rooms\<close> as lists of rows, with the columns the
  service writes. Row identifiers are issued by the store; the model issues them from
  a counter. The store is taken to answer every request; what it answers follows from
  the rows it holds, including the \<^verbatim>\<open>UNIQUE(user1_id, user2_id)\<close> constraint that the
  schema declares on \<^verbatim>\<open>matches\<close>.
\<close>

record Match =
  m_id :: nat
  user1_id :: string
  user2_id :: string
  user1_liked :: bool
  user2_liked :: bool
  is_mutual :: bool
  matched_at :: "int option"

record ChatRoom =
  room_id :: nat
  match_id :: nat

record MatchingDb =
  matches :: "Match list"
  chat_rooms :: "ChatRoom list"
  next_id :: nat

text \<open>\<^verbatim>\<open>.single()\<close>: the row when the query selects exactly one, \<^verbatim>\<open>null\<close> otherwise.\<close>

definition single :: "'a list \<Rightarrow> 'a option" where
  "single rows = (case rows of [r] \<Rightarrow> Some r | _ \<Rightarrow> None)"

text \<open>The lookup of lines 223-227.\<close>

definition findExistingMatch :: "MatchingDb \<Rightarrow> string \<Rightarrow> string \<Rightarrow> Match option" where
  "findExistingMatch db userId targetUserId =
     single (filter (\<lambda>m. (user1_id m = userId \<and> user2_id m = targetUserId) \<or>
                          (user1_id m = targetUserId \<and> user2_id m = userId))
               (matches db))"

definition pairTaken :: "MatchingDb \<Rightarrow> string \<Rightarrow> string \<Rightarrow> bool" where
  "pairTaken db u1 u2 = list_ex (\<lambda>m. user1_id m = u1 \<and> user2_id m = u2) (matches db)"

record LikeResult =
  like_data :: "Match list"
  like_error :: bool
  isMatch :: bool

text \<open>
  \<^verbatim>\<open>likeUser\<close> (lines 221-269). \<open>now\<close> is the clock reading written to
  \<^verbatim>\<open>matched_at\<close>. \<^verbatim>\<open>like_data\<close> is what \<^verbatim>\<open>.select()\<close> returns: the rows written.
\<close>

definition likeUser :: "int \<Rightarrow> MatchingDb \<Rightarrow> string \<Rightarrow> string \<Rightarrow> LikeResult \<times> MatchingDb" where
  "likeUser now db userId targetUserId =
     (case findExistingMatch db userId targetUserId of
        Some existingMatch \<Rightarrow>
          (let isMutual =
                 (if user1_id existingMatch = userId
                  then user2_liked existingMatch else user1_liked existingMatch);
               update =
                 (\<lambda>m. let m = (if user1_id existingMatch = userId
                                then m\<lparr>user1_liked := True\<rparr> else m\<lparr>user2_liked := True\<rparr>);
                           m = m\<lparr>is_mutual := isMutual\<rparr>
                       in if isMutual then m\<lparr>matched_at := Some now\<rparr> else m);
               rows = map (\<lambda>m. if m_id m = m_id existingMatch then update m else m) (matches db);
               db = db\<lparr>matches := rows\<rparr>;
               data = filter (\<lambda>m. m_id m = m_id existingMatch) rows;
               db =
                 (if isMutual \<and> \<not> is_mutual existingMatch
                  then db\<lparr>chat_rooms :=
                            chat_rooms db @ [\<lparr>room_id = next_id db, match_id = m_id existingMatch\<rparr>],
                          next_id := Suc (next_id db)\<rparr>
                  else db)
           in (\<lparr>like_data = data, like_error = False, isMatch = isMutual\<rparr>, db))
      | None \<Rightarrow>
          (if pairTaken db userId targetUserId
           then (\<lparr>like_data = [], like_error = True, isMatch = False\<rparr>, db)
           else
             (let row = \<lparr>m_id = next_id db, user1_id = userId, user2_id = targetUserId,
                         user1_liked = True, user2_liked = False, is_mutual = False,
                         matched_at = None\<rparr>
              in (\<lparr>like_data = [row], like_error = False, isMatch = False\<rparr>,
                  db\<lparr>matches := matches db @ [row], next_id := Suc (next_id db)\<rparr>))))"

text \<open>
  \<^verbatim>\<open>passUser\<close> (lines 272-284) is an \<^verbatim>\<open>upsert\<close> of a row that names no \<^verbatim>\<open>id\<close>.
  Which constraint the store resolves a clash on is not fixed by the source, so it is
  an argument: on the primary key the row is always new and a clash with the
  \<^verbatim>\<open>UNIQUE(user1_id, user2_id)\<close> constraint is an error; on the pair of users the
  payload overwrites the columns it names in the row that holds the pair.
\<close>

datatype UpsertConflict = OnPrimaryKey | OnUserPair

definition passUser ::
  "UpsertConflict \<Rightarrow> MatchingDb \<Rightarrow> string \<Rightarrow> string \<Rightarrow> bool \<times> MatchingDb" where
  "passUser conflict db userId targetUserId =
     (if pairTaken db userId targetUserId
      then (case conflict of
              OnPrimaryKey \<Rightarrow> (True, db)
            | OnUserPair \<Rightarrow>
                (False,
                 db\<lparr>matches :=
                      map (\<lambda>m. if user1_id m = userId \<and> user2_id m = targetUserId
                                then m\<lparr>user1_liked := False, user2_liked := False,
                                       is_mutual := False\<rparr>
                                else m)
                        (matches db)\<rparr>))
      else
        (False,
         db\<lparr>matches :=
              matches db @
                [\<lparr>m_id = next_id db, user1_id = userId, user2_id = targetUserId,
                  user1_liked = False, user2_liked = False, is_mutual = False,
                  matched_at = None\<rparr>],
            next_id := Suc (next_id db)\<rparr>))"

text \<open>The rows of a table that a call wrote: those it holds now and did not hold before.\<close>

definition written :: "Match list \<Rightarrow> Match list \<Rightarrow> Match list" where
  "written before after = filter (\<lambda>m. m \<notin> set before) after"

text \<open>
  For a liker and a row of the pair, whether the other participant has liked: the
  value line 232 names \<^verbatim>\<open>isMutual\<close>.
\<close>

definition otherLiked :: "Match \<Rightarrow> string \<Rightarrow> bool" where
  "otherLiked m userId = (if user1_id m = userId then user2_liked m else user1_liked m)"

section \<open>Reports and automatic safety actions\<close>

text \<open>
  The reporting service (\<^verbatim>\<open>lib/reporting\<close>, lines 499-1022 of
  \<^verbatim>\<open>src/unnamed/part_008\<close>) and the route \<^verbatim>\<open>POST /api/reports\<close>
  (\<^verbatim>\<open>src/unnamed/part_001\<close>). Timestamps are milliseconds since the epoch. The
  notices the service sends are Korean texts built from a few values; a notice is
  modelled by the values it is built from. The store is taken to answer every
  request, so the branches on a store \<^verbatim>\<open>error\<close> are not taken.
\<close>

datatype Priority = Low | Medium | High | Critical

datatype ActionType = Warning | TemporaryBan | PermanentBan | ProfileReview | ContentRemoval

datatype Reason =
    RepeatedHarassmentReports
  | RepeatedInappropriateContentReports
  | RepeatedReports
  | OtherReason string

text \<open>The argument of \<^verbatim>\<open>createReport\<close>: a report without the columns the service fills in.\<close>

record ReportInput =
  in_reporter_id :: string
  in_reported_user_id :: string
  in_reported_content_id :: "string option"
  in_report_type :: string
  in_category :: "string option"
  in_description :: "string option"
  in_evidence :: "string list option"

record ReportData =
  r_id :: nat
  reporter_id :: string
  reported_user_id :: string
  reported_content_id :: "string option"
  report_type :: string
  category :: "string option"
  description :: "string option"
  evidence :: "string list option"
  status :: string
  priority :: Priority
  created_at :: int
  updated_at :: int

text \<open>The columns of \<^verbatim>\<open>profiles\<close> that the reporting service reads and writes.\<close>

record Account =
  acc_id :: string
  role :: string
  account_status :: string
  suspension_until :: "int option"
  banned_at :: "int option"

record SafetyActionData =
  ad_action_type :: ActionType
  ad_reason :: Reason
  ad_duration :: "int option"
  ad_applied_by :: string

record SafetyAction =
  sa_id :: nat
  sa_user_id :: string
  action_type :: ActionType
  reason :: Reason
  duration :: "int option"
  applied_by :: string
  applied_at :: int

datatype Notice = NewReportNotice Priority string nat | SafetyActionNotice Reason

record Notification =
  n_user_id :: string
  n_type :: string
  n_notice :: Notice
  n_is_read :: bool

record ReportingDb =
  reports :: "ReportData list"
  safety_actions :: "SafetyAction list"
  accounts :: "Account list"
  notifications :: "Notification list"
  r_next_id :: nat

text \<open>\<^verbatim>\<open>calculateReportPriority\<close> (part_008, lines 578-592).\<close>

definition calculateReportPriority :: "ReportInput \<Rightarrow> Priority" where
  "calculateReportPriority reportData =
     (let criticalTypes = [''abuse'', ''harassment''];
          highPriorityTypes = [''inappropriate_content'', ''fake_profile'']
      in if js_includes criticalTypes (in_report_type reportData) then Critical
         else if js_includes highPriorityTypes (in_report_type reportData) then High
         else Medium)"

text \<open>
  \<^verbatim>\<open>notificationService.createNotification\<close> (part_008, lines 1151-1175): the row
  is inserted; the push message it then sends leaves the store as it is.
\<close>

definition createNotification :: "ReportingDb \<Rightarrow> Notification \<Rightarrow> ReportingDb" where
  "createNotification db notification = db\<lparr>notifications := notifications db @ [notification]\<rparr>"

text \<open>\<^verbatim>\<open>notifyAdminsOfNewReport\<close> (part_008, lines 907-932).\<close>

definition notifyAdminsOfNewReport :: "ReportingDb \<Rightarrow> ReportData \<Rightarrow> ReportingDb" where
  "notifyAdminsOfNewReport db report =
     (let admins = filter (\<lambda>a. role a = ''admin'') (accounts db)
      in if length admins > 0
         then db\<lparr>notifications :=
                   notifications db @
                     map (\<lambda>admin. \<lparr>n_user_id = acc_id admin, n_type = ''system'',
                                    n_notice = NewReportNotice (priority report) (report_type report)
                                                 (r_id report),
                                    n_is_read = False\<rparr>)
                       admins\<rparr>
         else db)"

text \<open>
  The \<^verbatim>\<open>updateData\<close> object of \<^verbatim>\<open>applySafetyAction\<close>: the columns it sets, \<open>None\<close>
  for a key it does not hold.
\<close>

record AccountUpdate =
  set_account_status :: "string option"
  set_suspension_until :: "int option"
  set_banned_at :: "int option"

definition emptyUpdate :: AccountUpdate where
  "emptyUpdate = \<lparr>set_account_status = None, set_suspension_until = None, set_banned_at = None\<rparr>"

definition applyAccountUpdate :: "AccountUpdate \<Rightarrow> Account \<Rightarrow> Account" where
  "applyAccountUpdate u a =
     a\<lparr>account_status := (case set_account_status u of None \<Rightarrow> account_status a | Some v \<Rightarrow> v),
       suspension_until :=
         (case set_suspension_until u of None \<Rightarrow> suspension_until a | Some v \<Rightarrow> Some v),
       banned_at := (case set_banned_at u of None \<Rightarrow> banned_at a | Some v \<Rightarrow> Some v)\<rparr>"

text \<open>\<^verbatim>\<open>actionData.duration || 24\<close>: a missing or zero duration is falsy.\<close>

definition durationOr24 :: "int option \<Rightarrow> int" where
  "durationOr24 d = (case d of None \<Rightarrow> 24 | Some h \<Rightarrow> if h = 0 then 24 else h)"

text \<open>\<^verbatim>\<open>applySafetyAction\<close> (part_008, lines 818-878).\<close>

definition applySafetyAction ::
  "int \<Rightarrow> ReportingDb \<Rightarrow> string \<Rightarrow> SafetyActionData \<Rightarrow> bool \<times> ReportingDb" where
  "applySafetyAction now db userId actionData =
     (let db = db\<lparr>safety_actions :=
                    safety_actions db @
                      [\<lparr>sa_id = r_next_id db, sa_user_id = userId,
                        action_type = ad_action_type actionData,
                        reason = ad_reason actionData,
                        duration = ad_duration actionData,
                        applied_by = ad_applied_by actionData,
                        applied_at = now\<rparr>],
                  r_next_id := Suc (r_next_id db)\<rparr>;
          updateData =
            (case ad_action_type actionData of
               TemporaryBan \<Rightarrow>
                 emptyUpdate\<lparr>set_account_status := Some ''suspended'',
                             set_suspension_until :=
                               Some (now + durationOr24 (ad_duration actionData) * 60 * 60 * 1000)\<rparr>
             | PermanentBan \<Rightarrow>
                 emptyUpdate\<lparr>set_account_status := Some ''banned'', set_banned_at := Some now\<rparr>
             | ProfileReview \<Rightarrow> emptyUpdate\<lparr>set_account_status := Some ''under_review''\<rparr>
             | _ \<Rightarrow> emptyUpdate);
          db =
            (if updateData \<noteq> emptyUpdate
             then db\<lparr>accounts :=
                       map (\<lambda>a. if acc_id a = userId then applyAccountUpdate updateData a else a)
                         (accounts db)\<rparr>
             else db);
          db = createNotification db
                 \<lparr>n_user_id = userId, n_type = ''system'',
                  n_notice = SafetyActionNotice (ad_reason actionData), n_is_read = False\<rparr>
      in (True, db))"

text \<open>The count of part_008, lines 779-786: the rows of the last 30 days of one type against one user.\<close>

definition recentReportCount :: "int \<Rightarrow> ReportingDb \<Rightarrow> string \<Rightarrow> string \<Rightarrow> nat" where
  "recentReportCount now db userId reportType =
     length (filter (\<lambda>r. reported_user_id r = userId \<and> report_type r = reportType \<and>
                         created_at r \<ge> now - 30 * 24 * 60 * 60 * 1000)
               (reports db))"

text \<open>\<^verbatim>\<open>checkForAutomaticActions\<close> (part_008, lines 776-815).\<close>

definition checkForAutomaticActions :: "int \<Rightarrow> ReportingDb \<Rightarrow> string \<Rightarrow> string \<Rightarrow> ReportingDb" where
  "checkForAutomaticActions now db userId reportType =
     (let reportCount = recentReportCount now db userId reportType
      in if reportCount \<ge> 5 \<and> reportType = ''harassment''
         then snd (applySafetyAction now db userId
                     \<lparr>ad_action_type = TemporaryBan, ad_reason = RepeatedHarassmentReports,
                      ad_duration = Some 72, ad_applied_by = ''system''\<rparr>)
         else if reportCount \<ge> 3 \<and> reportType = ''inappropriate_content''
         then snd (applySafetyAction now db userId
                     \<lparr>ad_action_type = ProfileReview,
                      ad_reason = RepeatedInappropriateContentReports,
                      ad_duration = None, ad_applied_by = ''system''\<rparr>)
         else if reportCount \<ge> 10
         then snd (applySafetyAction now db userId
                     \<lparr>ad_action_type = PermanentBan, ad_reason = RepeatedReports,
                      ad_duration = None, ad_applied_by = ''system''\<rparr>)
         else db)"

text \<open>The row \<^verbatim>\<open>createReport\<close> inserts (part_008, lines 547-558).\<close>

definition newReportRow :: "int \<Rightarrow> nat \<Rightarrow> ReportInput \<Rightarrow> ReportData" where
  "newReportRow now ident reportData =
     \<lparr>r_id = ident,
      reporter_id = in_reporter_id reportData,
      reported_user_id = in_reported_user_id reportData,
      reported_content_id = in_reported_content_id reportData,
      report_type = in_report_type reportData,
      category = in_category reportData,
      description = in_description reportData,
      evidence = in_evidence reportData,
      status = ''pending'',
      priority = calculateReportPriority reportData,
      created_at = now,
      updated_at = now\<rparr>"

text \<open>\<^verbatim>\<open>createReport\<close> (part_008, lines 542-575).\<close>

definition createReport :: "int \<Rightarrow> ReportingDb \<Rightarrow> ReportInput \<Rightarrow> ReportData option \<times> ReportingDb" where
  "createReport now db reportData =
     (let data = newReportRow now (r_next_id db) reportData;
          db = db\<lparr>reports := reports db @ [data], r_next_id := Suc (r_next_id db)\<rparr>;
          db = notifyAdminsOfNewReport db data;
          db = checkForAutomaticActions now db (in_reported_user_id reportData)
                 (in_report_type reportData)
      in (Some data, db))"

text \<open>
  The body of \<^verbatim>\<open>POST /api/reports\<close> after \<^verbatim>\<open>req.json()\<close>: each field is absent
  (\<open>None\<close>) or a string.
\<close>

record ReportRequest =
  rq_reporter_id :: "string option"
  rq_reported_user_id :: "string option"
  rq_reported_content_id :: "string option"
  rq_report_type :: "string option"
  rq_category :: "string option"
  rq_description :: "string option"
  rq_evidence :: "string list option"

definition str_of :: "string option \<Rightarrow> string" where
  "str_of v = (case v of None \<Rightarrow> [] | Some s \<Rightarrow> s)"

text \<open>
  The request body as \<^verbatim>\<open>createReport\<close> receives it. The route calls it only after
  the three required fields were found truthy, so \<open>str_of\<close> changes none of them.
\<close>

definition toReportInput :: "ReportRequest \<Rightarrow> ReportInput" where
  "toReportInput body =
     \<lparr>in_reporter_id = str_of (rq_reporter_id body),
      in_reported_user_id = str_of (rq_reported_user_id body),
      in_reported_content_id = rq_reported_content_id body,
      in_report_type = str_of (rq_report_type body),
      in_category = rq_category body,
      in_description = rq_description body,
      in_evidence = rq_evidence body\<rparr>"

text \<open>
  The duplicate lookup of part_001, lines 32-38. The filter on
  \<^verbatim>\<open>reported_content_id\<close> is an equality with \<^verbatim>\<open>reportData.reported_content_id || null\<close>;
  the store's equality holds of no row when the value is \<^verbatim>\<open>null\<close>.
\<close>

definition findExistingReport :: "ReportingDb \<Rightarrow> ReportRequest \<Rightarrow> ReportData option" where
  "findExistingReport db body =
     single (filter (\<lambda>r. reporter_id r = str_of (rq_reporter_id body) \<and>
                         reported_user_id r = str_of (rq_reported_user_id body) \<and>
                         truthy (rq_reported_content_id body) \<and>
                         reported_content_id r = rq_reported_content_id body)
               (reports db))"

datatype ResponseBody = ErrorBody string | ReportBody ReportData

record HttpResponse =
  http_status :: nat
  http_body :: ResponseBody

text \<open>\<^verbatim>\<open>POST\<close> (part_001, lines 11-64). A response without a status is sent with 200.\<close>

definition POST :: "int \<Rightarrow> ReportingDb \<Rightarrow> ReportRequest \<Rightarrow> HttpResponse \<times> ReportingDb" where
  "POST now db reportData =
     (if \<not> truthy (rq_reporter_id reportData) \<or> \<not> truthy (rq_reported_user_id reportData) \<or>
         \<not> truthy (rq_report_type reportData)
      then (\<lparr>http_status = 400, http_body = ErrorBody ''Missing required fields''\<rparr>, db)
      else if rq_reporter_id reportData = rq_reported_user_id reportData
      then (\<lparr>http_status = 400, http_body = ErrorBody ''Cannot report yourself''\<rparr>, db)
      else
        (case findExistingReport db reportData of
           Some existingReport \<Rightarrow>
             (\<lparr>http_status = 409,
               http_body = ErrorBody ''You have already reported this user/content''\<rparr>, db)
         | None \<Rightarrow>
             (case createReport now db (toReportInput reportData) of
                (None, db) \<Rightarrow>
                  (\<lparr>http_status = 500, http_body = ErrorBody ''Failed to create report''\<rparr>, db)
              | (Some report, db) \<Rightarrow> (\<lparr>http_status = 200, http_body = ReportBody report\<rparr>, db))))"

section \<open>Derived notions used in the statements\<close>

text \<open>
  The row to which \<^verbatim>\<open>likeUser\<close> updates a row \<open>m\<close> when its lookup found \<open>e\<close>: the
  payload of matching.ts, lines 238-242, with \<^verbatim>\<open>isMutual\<close> written as \<open>otherLiked\<close>.
\<close>

definition likedRow :: "int \<Rightarrow> Match \<Rightarrow> string \<Rightarrow> Match \<Rightarrow> Match" where
  "likedRow now e userId m =
     (let m = (if user1_id e = userId then m\<lparr>user1_liked := True\<rparr> else m\<lparr>user2_liked := True\<rparr>);
          m = m\<lparr>is_mutual := otherLiked e userId\<rparr>
      in if otherLiked e userId then m\<lparr>matched_at := Some now\<rparr> else m)"

text \<open>
  The rows of \<^verbatim>\<open>matches\<close> that hold a pair of users, in either order: the rows the
  lookup of \<^verbatim>\<open>likeUser\<close> selects before \<^verbatim>\<open>.single()\<close>.
\<close>

definition pairRows :: "MatchingDb \<Rightarrow> string \<Rightarrow> string \<Rightarrow> Match list" where
  "pairRows db userId targetUserId =
     filter (\<lambda>m. (user1_id m = userId \<and> user2_id m = targetUserId) \<or>
                  (user1_id m = targetUserId \<and> user2_id m = userId))
       (matches db)"

text \<open>
  \<open>hasLiked db a b\<close>: some row of the table records a like of \<open>a\<close> for \<open>b\<close>, that is,
  \<open>a\<close> has already liked \<open>b\<close>.
\<close>

definition hasLiked :: "MatchingDb \<Rightarrow> string \<Rightarrow> string \<Rightarrow> bool" where
  "hasLiked db a b =
     list_ex (\<lambda>m. (user1_id m = a \<and> user2_id m = b \<and> user1_liked m) \<or>
                   (user2_id m = a \<and> user1_id m = b \<and> user2_liked m))
       (matches db)"

text \<open>
  The store as \<^verbatim>\<open>createReport\<close> hands it to \<^verbatim>\<open>checkForAutomaticActions\<close>: the new
  row inserted and the administrators notified.
\<close>

definition withNewReport :: "int \<Rightarrow> ReportingDb \<Rightarrow> ReportInput \<Rightarrow> ReportingDb" where
  "withNewReport now db reportData =
     notifyAdminsOfNewReport
       (db\<lparr>reports := reports db @ [newReportRow now (r_next_id db) reportData],
           r_next_id := Suc (r_next_id db)\<rparr>)
       (newReportRow now (r_next_id db) reportData)"

section \<open>Sample data\<close>

text \<open>
  Concrete values at which the theorems below are instantiated. The clock readings are
  2024-01-01 00:00, 2024-01-01 06:00 and 2024-03-01 00:00 (UTC).
\<close>

definition clock_jan :: jsdate where
  "clock_jan = \<lparr>getFullYear = 2024, getMonth = 0, getDate = 1, getTime = 1704067200000\<rparr>"

definition clock_jan_morning :: jsdate where
  "clock_jan_morning =
     \<lparr>getFullYear = 2024, getMonth = 0, getDate = 1, getTime = 1704088800000\<rparr>"

definition clock_mar :: jsdate where
  "clock_mar = \<lparr>getFullYear = 2024, getMonth = 2, getDate = 1, getTime = 1709251200000\<rparr>"

definition sample_user :: UserProfile where
  "sample_user =
     \<lparr>p_id = ''u1'', full_name = ''Min'', avatar_url = None,
      birth_date = Some \<lparr>getFullYear = 1992, getMonth = 3, getDate = 20, getTime = 703728000000\<rparr>,
      gender = Male, country = ''KR'', city = None, occupation = None, bio = None,
      interests = [''music'', ''travel''], languages = [''en''],
      education_level = Some ''master'', height = None, verification_status = ''verified'',
      is_premium = False,
      last_active =
        Some \<lparr>getFullYear = 2023, getMonth = 11, getDate = 31, getTime = 1704024000000\<rparr>\<rparr>"

definition sample_candidate :: UserProfile where
  "sample_candidate =
     \<lparr>p_id = ''u2'', full_name = ''Ana'', avatar_url = None,
      birth_date = Some \<lparr>getFullYear = 1995, getMonth = 5, getDate = 15, getTime = 803174400000\<rparr>,
      gender = Female, country = ''BR'', city = None, occupation = None, bio = None,
      interests = [''music''], languages = [''en'', ''pt''],
      education_level = Some ''bachelor'', height = None, verification_status = ''verified'',
      is_premium = False,
      last_active =
        Some \<lparr>getFullYear = 2023, getMonth = 11, getDate = 31, getTime = 1704024000000\<rparr>\<rparr>"

definition sample_preferences :: MatchingPreferences where
  "sample_preferences =
     \<lparr>pref_user_id = ''u1'', min_age = 25, max_age = 35, preferred_countries = [''BR'', ''JP''],
      preferred_education = [''bachelor''], preferred_occupation = [], max_distance = None\<rparr>"

definition sample_candidate3 :: UserProfile where
  "sample_candidate3 =
     sample_candidate\<lparr>p_id := ''u3'', full_name := ''Yui'', country := ''JP'',
       interests := [''music'', ''travel''], languages := [''ja'']\<rparr>"

definition sample_candidate4 :: UserProfile where
  "sample_candidate4 =
     sample_candidate\<lparr>p_id := ''u4'', full_name := ''Eva'', country := ''DE'',
       interests := [], languages := [''de''], education_level := None\<rparr>"

definition sample_responses :: RecommendationResponses where
  "sample_responses =
     \<lparr>currentUser = Some sample_user, userError = False,
      preferencesData = Some sample_preferences, preferencesError = False,
      existingMatches = Some [(''u1'', ''u7''), (''u8'', ''u1'')],
      blocks = Some [''u9'', ''u7''],
      candidates = Some [sample_candidate4, sample_candidate, sample_candidate3],
      candidatesError = False\<rparr>"

definition sample_now :: int where
  "sample_now = 1704067200000"

definition sample_matching_db :: MatchingDb where
  "sample_matching_db =
     \<lparr>matches =
        [\<lparr>m_id = 0, user1_id = ''u2'', user2_id = ''u1'', user1_liked = True,
          user2_liked = False, is_mutual = False, matched_at = None\<rparr>,
         \<lparr>m_id = 1, user1_id = ''u1'', user2_id = ''u3'', user1_liked = True,
          user2_liked = False, is_mutual = False, matched_at = None\<rparr>],
      chat_rooms = [], next_id = 2\<rparr>"

definition sample_report :: "nat \<Rightarrow> string \<Rightarrow> string \<Rightarrow> Priority \<Rightarrow> ReportData" where
  "sample_report i reporter reportType prio =
     \<lparr>r_id = i, reporter_id = reporter, reported_user_id = ''u2'',
      reported_content_id = None, report_type = reportType, category = Some ''behavior'',
      description = None, evidence = None, status = ''pending'', priority = prio,
      created_at = sample_now - int i * 86400000,
      updated_at = sample_now - int i * 86400000\<rparr>"

definition sample_accounts :: "Account list" where
  "sample_accounts =
     [\<lparr>acc_id = ''u2'', role = ''user'', account_status = ''active'', suspension_until = None,
       banned_at = None\<rparr>,
      \<lparr>acc_id = ''a1'', role = ''admin'', account_status = ''active'', suspension_until = None,
       banned_at = None\<rparr>]"

text \<open>Nine reports of harassment against \<open>u2\<close>, one a day over the last nine days.\<close>

definition nine_harassment_reports_db :: ReportingDb where
  "nine_harassment_reports_db =
     \<lparr>reports =
        [sample_report 1 ''r1'' ''harassment'' Critical,
         sample_report 2 ''r2'' ''harassment'' Critical,
         sample_report 3 ''r3'' ''harassment'' Critical,
         sample_report 4 ''r4'' ''harassment'' Critical,
         sample_report 5 ''r5'' ''harassment'' Critical,
         sample_report 6 ''r6'' ''harassment'' Critical,
         sample_report 7 ''r7'' ''harassment'' Critical,
         sample_report 8 ''r8'' ''harassment'' Critical,
         sample_report 9 ''r9'' ''harassment'' Critical],
      safety_actions = [], accounts = sample_accounts, notifications = [], r_next_id = 10\<rparr>"

definition tenth_harassment_report :: ReportInput where
  "tenth_harassment_report =
     \<lparr>in_reporter_id = ''u1'', in_reported_user_id = ''u2'', in_reported_content_id = None,
      in_report_type = ''harassment'', in_category = Some ''behavior'',
      in_description = None, in_evidence = None\<rparr>"

text \<open>Two reports of spam against \<open>u2\<close>, and a third one arriving.\<close>

definition two_spam_reports_db :: ReportingDb where
  "two_spam_reports_db =
     \<lparr>reports = [sample_report 1 ''r1'' ''spam'' Medium, sample_report 2 ''r2'' ''spam'' Medium],
      safety_actions = [], accounts = sample_accounts, notifications = [], r_next_id = 3\<rparr>"

definition spam_report :: ReportInput where
  "spam_report =
     \<lparr>in_reporter_id = ''u1'', in_reported_user_id = ''u2'', in_reported_content_id = None,
      in_report_type = ''spam'', in_category = Some ''message'',
      in_description = None, in_evidence = None\<rparr>"

definition self_report_request :: ReportRequest where
  "self_report_request =
     \<lparr>rq_reporter_id = Some ''u2'', rq_reported_user_id = Some ''u2'',
      rq_reported_content_id = None, rq_report_type = Some ''spam'',
      rq_category = Some ''profile'', rq_description = None, rq_evidence = None\<rparr>"

text \<open>A user whose list of interests repeats one interest, and a candidate with none.\<close>

definition repeating_user :: UserProfile where
  "repeating_user = sample_user\<lparr>interests := [''music'', ''music'', ''music'']\<rparr>"

definition candidate_without_interests :: UserProfile where
  "candidate_without_interests = sample_candidate\<lparr>interests := []\<rparr>"

text \<open>
  An empty store in which \<open>u5\<close> likes \<open>u1\<close> and \<open>u1\<close> then passes \<open>u5\<close>: the pair has
  two rows.
\<close>

definition empty_matching_db :: MatchingDb where
  "empty_matching_db = \<lparr>matches = [], chat_rooms = [], next_id = 0\<rparr>"

definition liked_then_passed_db :: MatchingDb where
  "liked_then_passed_db =
     snd (passUser OnPrimaryKey (snd (likeUser sample_now empty_matching_db ''u5'' ''u1''))
            ''u1'' ''u5'')"

text \<open>Three recent reports of inappropriate content against \<open>u2\<close>.\<close>

definition three_content_reports_db :: ReportingDb where
  "three_content_reports_db =
     \<lparr>reports =
        [sample_report 1 ''r1'' ''inappropriate_content'' High,
         sample_report 2 ''r2'' ''inappropriate_content'' High,
         sample_report 3 ''r3'' ''inappropriate_content'' High],
      safety_actions = [], accounts = sample_accounts, notifications = [], r_next_id = 4\<rparr>"

section \<open>Properties of the compatibility score\<close>

lemma js_round_of_int: "js_round ((of_int n / of_int 100) * 100) = n"
proof -
  have "\<lfloor>(of_int n :: rat) + 1 / 2\<rfloor> = n"
    by (simp add: floor_eq_iff)
  then show ?thesis
    by (simp add: js_round_def)
qed

lemma scoreAccumulators_maxScore:
  "snd (scoreAccumulators now user candidate preferences) = 100"
  by (simp add: scoreAccumulators_def Let_def)

lemma scoreAccumulators_score:
  "fst (scoreAccumulators now user candidate preferences) =
     agePoints now candidate preferences + countryPoints candidate preferences +
     educationPoints candidate preferences + interestPoints user candidate +
     languagePoints user candidate + activityPoints now candidate"
  by (simp add: scoreAccumulators_def Let_def agePoints_def countryPoints_def
      educationPoints_def interestPoints_def languagePoints_def activityPoints_def truthy_def
      mult.commute
      split: option.splits)

lemma score_is_sum:
  "calculateCompatibilityScore now user candidate preferences =
     agePoints now candidate preferences + countryPoints candidate preferences +
     educationPoints candidate preferences + interestPoints user candidate +
     languagePoints user candidate + activityPoints now candidate"
proof -
  obtain s m where sm: "scoreAccumulators now user candidate preferences = (s, m)"
    by (cases "scoreAccumulators now user candidate preferences")
  have m: "m = 100"
    using scoreAccumulators_maxScore [of now user candidate preferences] sm by simp
  have s: "s = agePoints now candidate preferences + countryPoints candidate preferences +
     educationPoints candidate preferences + interestPoints user candidate +
     languagePoints user candidate + activityPoints now candidate"
    using scoreAccumulators_score [of now user candidate preferences] sm by simp
  have "calculateCompatibilityScore now user candidate preferences
        = js_round ((of_int s / of_int 100) * 100)"
    by (simp add: calculateCompatibilityScore_def sm m)
  then show ?thesis
    by (simp only: js_round_of_int s)
qed







lemmas clock_defs = clock_jan_def clock_jan_morning_def clock_mar_def

lemmas factor_defs =
  agePoints_def countryPoints_def educationPoints_def interestPoints_def languagePoints_def
  activityPoints_def daysSinceActive_def commonInterests_def commonLanguages_def
  js_includes_def calculateAge_def










text \<open>
  Claim C4, as stated, fails: the routine reads the clock (\<^verbatim>\<open>new Date()\<close> in
  \<^verbatim>\<open>calculateAge\<close>, \<^verbatim>\<open>Date.now()\<close> for the recency factor). The same user, candidate
  and preferences score 36 on 2024-01-01 and 28 on 2024-03-01.
\<close>

theorem score_differs_between_clock_readings:
  "calculateCompatibilityScore clock_jan sample_user sample_candidate None \<noteq>
   calculateCompatibilityScore clock_mar sample_user sample_candidate None"
  by (simp add: score_is_sum factor_defs clock_defs sample_user_def sample_candidate_def)

text \<open>
  Claim C4, amended. The score is a function of the three arguments and the clock
  reading, and it depends on the clock only through the candidate's age and the band of
  the recency factor: two evaluations on identical arguments return the same score
  whenever their clock readings give the candidate the same age and the same recency
  points.
\<close>

theorem score_same_when_age_and_recency_agree:
  assumes "calculateAge now1 (birth_date candidate) = calculateAge now2 (birth_date candidate)"
    and "activityPoints now1 candidate = activityPoints now2 candidate"
  shows "calculateCompatibilityScore now1 user candidate preferences =
         calculateCompatibilityScore now2 user candidate preferences"
proof -
  have "agePoints now1 candidate preferences = agePoints now2 candidate preferences"
    using assms(1) by (cases preferences) (simp_all add: agePoints_def)
  then show ?thesis
    using assms(2) by (simp add: score_is_sum)
qed

theorem score_same_when_age_and_recency_agree_witness:
  "calculateAge clock_jan (birth_date sample_candidate) =
     calculateAge clock_jan_morning (birth_date sample_candidate)
   \<and> activityPoints clock_jan sample_candidate = activityPoints clock_jan_morning sample_candidate
   \<and> calculateCompatibilityScore clock_jan sample_user sample_candidate (Some sample_preferences) =
     calculateCompatibilityScore clock_jan_morning sample_user sample_candidate
       (Some sample_preferences)"
proof -
  have h1: "calculateAge clock_jan (birth_date sample_candidate) =
     calculateAge clock_jan_morning (birth_date sample_candidate)"
    by (simp add: calculateAge_def clock_defs sample_candidate_def)
  have h2: "activityPoints clock_jan sample_candidate =
     activityPoints clock_jan_morning sample_candidate"
    by (simp add: activityPoints_def daysSinceActive_def clock_defs sample_candidate_def)
  from score_same_when_age_and_recency_agree [OF h1 h2] have h3:
    "calculateCompatibilityScore clock_jan sample_user sample_candidate (Some sample_preferences) =
     calculateCompatibilityScore clock_jan_morning sample_user sample_candidate
       (Some sample_preferences)" .
  from h1 h2 h3 show ?thesis by blast
qed

section \<open>Shared interests\<close>

lemma score_interests_update:
  "calculateCompatibilityScore now (user\<lparr>interests := iu\<rparr>) (candidate\<lparr>interests := ic\<rparr>)
     preferences
   - interestPoints (user\<lparr>interests := iu\<rparr>) (candidate\<lparr>interests := ic\<rparr>)
   = calculateCompatibilityScore now user candidate preferences - interestPoints user candidate"
proof -
  have a: "agePoints now (candidate\<lparr>interests := ic\<rparr>) preferences =
           agePoints now candidate preferences"
    by (cases preferences) (simp_all add: agePoints_def)
  have c: "countryPoints (candidate\<lparr>interests := ic\<rparr>) preferences =
           countryPoints candidate preferences"
    by (cases preferences) (simp_all add: countryPoints_def)
  have e: "educationPoints (candidate\<lparr>interests := ic\<rparr>) preferences =
           educationPoints candidate preferences"
    by (simp add: educationPoints_def)
  have l: "languagePoints (user\<lparr>interests := iu\<rparr>) (candidate\<lparr>interests := ic\<rparr>) =
           languagePoints user candidate"
    by (simp add: languagePoints_def commonLanguages_def)
  have r: "activityPoints now (candidate\<lparr>interests := ic\<rparr>) = activityPoints now candidate"
    by (simp add: activityPoints_def daysSinceActive_def)
  show ?thesis
    by (simp add: score_is_sum a c e l r)
qed

text \<open>
  One way to share one more interest: the candidate takes up an interest that the
  user lists once.
\<close>

lemma commonInterests_gain:
  assumes "x \<notin> set (interests candidate)" and "count_list (interests user) x = 1"
  shows "length (commonInterests user (candidate\<lparr>interests := x # interests candidate\<rparr>)) =
         Suc (length (commonInterests user candidate))"
proof -
  have "length (filter (\<lambda>i. i = x \<or> i \<in> set ys) xs) =
        count_list xs x + length (filter (\<lambda>i. i \<in> set ys) xs)"
    if "x \<notin> set ys" for xs ys :: "string list"
    using that by (induction xs) auto
  from this [OF assms(1), of "interests user"] assms(2) show ?thesis
    by (simp add: commonInterests_def js_includes_def)
qed

text \<open>
  The score of line 114 counts the entries of \<^verbatim>\<open>commonInterests\<close>: with everything but
  the two lists of interests fixed, one more entry never lowers the score, adds exactly
  4 while fewer than five entries were common and adds nothing from five on.
\<close>

lemma score_one_more_common_entry:
  assumes "length (commonInterests (user\<lparr>interests := iu\<rparr>) (candidate\<lparr>interests := ic\<rparr>)) =
           Suc (length (commonInterests user candidate))"
  shows "calculateCompatibilityScore now user candidate preferences \<le>
           calculateCompatibilityScore now (user\<lparr>interests := iu\<rparr>) (candidate\<lparr>interests := ic\<rparr>)
             preferences
         \<and> (length (commonInterests user candidate) < 5 \<longrightarrow>
              calculateCompatibilityScore now (user\<lparr>interests := iu\<rparr>)
                (candidate\<lparr>interests := ic\<rparr>) preferences =
              calculateCompatibilityScore now user candidate preferences + 4)
         \<and> (5 \<le> length (commonInterests user candidate) \<longrightarrow>
              calculateCompatibilityScore now (user\<lparr>interests := iu\<rparr>)
                (candidate\<lparr>interests := ic\<rparr>) preferences =
              calculateCompatibilityScore now user candidate preferences)"
proof -
  let ?n = "length (commonInterests user candidate)"
  have new: "interestPoints (user\<lparr>interests := iu\<rparr>) (candidate\<lparr>interests := ic\<rparr>) =
             min 20 (4 * int (Suc ?n))"
    using assms by (simp add: interestPoints_def)
  have old: "interestPoints user candidate = min 20 (4 * int ?n)"
    by (simp add: interestPoints_def)
  note d = score_interests_update [where now = now and user = user and iu = iu
      and candidate = candidate and ic = ic and preferences = preferences]
  have eq: "calculateCompatibilityScore now (user\<lparr>interests := iu\<rparr>)
              (candidate\<lparr>interests := ic\<rparr>) preferences =
            calculateCompatibilityScore now user candidate preferences
              - min 20 (4 * int ?n) + min 20 (4 * int (Suc ?n))"
    using d new old by linarith
  have below: "?n < 5 \<Longrightarrow> min 20 (4 * int (Suc ?n)) = min 20 (4 * int ?n) + 4"
    by simp
  have capped: "5 \<le> ?n \<Longrightarrow> min 20 (4 * int (Suc ?n)) = min 20 (4 * int ?n)"
    by simp
  show ?thesis
  proof (cases "?n < 5")
    case True
    with eq below show ?thesis by simp
  next
    case False
    with eq capped show ?thesis by simp
  qed
qed

text \<open>
  Claim C10, as stated, fails: \<^verbatim>\<open>commonInterests\<close> keeps every entry of the user's
  list that the candidate lists, repeated entries included. A user who lists one
  interest three times and a candidate who takes that interest up: the set of common
  interests grows by one element, fewer than five were shared, and the score rises by
  12, not by 4.
\<close>

theorem score_rises_by_twelve_for_repeated_interest:
  "set (commonInterests repeating_user
          (candidate_without_interests\<lparr>interests := [''music'']\<rparr>)) =
     insert ''music'' (set (commonInterests repeating_user candidate_without_interests))
   \<and> ''music'' \<notin> set (commonInterests repeating_user candidate_without_interests)
   \<and> length (commonInterests repeating_user candidate_without_interests) < 5
   \<and> calculateCompatibilityScore clock_jan repeating_user candidate_without_interests None = 32
   \<and> calculateCompatibilityScore clock_jan repeating_user
       (candidate_without_interests\<lparr>interests := [''music'']\<rparr>) None = 44
   \<and> calculateCompatibilityScore clock_jan repeating_user
       (candidate_without_interests\<lparr>interests := [''music'']\<rparr>) None \<noteq>
     calculateCompatibilityScore clock_jan repeating_user candidate_without_interests None + 4"
  by (simp add: score_is_sum factor_defs clock_defs repeating_user_def
      candidate_without_interests_def sample_user_def sample_candidate_def)

text \<open>
  Claim C10, amended. When the user's list of interests has no repeated entry, before
  and after, and the set of interests common to user and candidate grows by one
  element (everything but the two lists of interests fixed), the score never
  decreases; it increases by exactly 4 while fewer than five interests were shared,
  and stays as it is once five were shared.
\<close>

theorem score_monotone_in_shared_interests:
  assumes "distinct (interests user)" and "distinct iu"
    and "x \<notin> set (commonInterests user candidate)"
    and "set (commonInterests (user\<lparr>interests := iu\<rparr>) (candidate\<lparr>interests := ic\<rparr>)) =
         insert x (set (commonInterests user candidate))"
  shows "calculateCompatibilityScore now user candidate preferences \<le>
           calculateCompatibilityScore now (user\<lparr>interests := iu\<rparr>) (candidate\<lparr>interests := ic\<rparr>)
             preferences
         \<and> (card (set (commonInterests user candidate)) < 5 \<longrightarrow>
              calculateCompatibilityScore now (user\<lparr>interests := iu\<rparr>)
                (candidate\<lparr>interests := ic\<rparr>) preferences =
              calculateCompatibilityScore now user candidate preferences + 4)
         \<and> (5 \<le> card (set (commonInterests user candidate)) \<longrightarrow>
              calculateCompatibilityScore now (user\<lparr>interests := iu\<rparr>)
                (candidate\<lparr>interests := ic\<rparr>) preferences =
              calculateCompatibilityScore now user candidate preferences)"
proof -
  have d0: "distinct (commonInterests user candidate)"
    using assms(1) by (simp add: commonInterests_def)
  have d1: "distinct (commonInterests (user\<lparr>interests := iu\<rparr>) (candidate\<lparr>interests := ic\<rparr>))"
    using assms(2) by (simp add: commonInterests_def)
  have l0: "length (commonInterests user candidate) = card (set (commonInterests user candidate))"
    using d0 by (simp add: distinct_card)
  have "length (commonInterests (user\<lparr>interests := iu\<rparr>) (candidate\<lparr>interests := ic\<rparr>)) =
        card (insert x (set (commonInterests user candidate)))"
    using d1 assms(4) by (metis distinct_card)
  also have "\<dots> = Suc (card (set (commonInterests user candidate)))"
    using assms(3) by simp
  finally have "length (commonInterests (user\<lparr>interests := iu\<rparr>) (candidate\<lparr>interests := ic\<rparr>)) =
                Suc (length (commonInterests user candidate))"
    using l0 by simp
  from score_one_more_common_entry [OF this, of now preferences] l0 show ?thesis
    by simp
qed

theorem score_monotone_in_shared_interests_witness:
  "distinct (interests sample_user) \<and> distinct (interests sample_user)
   \<and> ''travel'' \<notin> set (commonInterests sample_user sample_candidate)
   \<and> set (commonInterests (sample_user\<lparr>interests := interests sample_user\<rparr>)
            (sample_candidate\<lparr>interests := ''travel'' # interests sample_candidate\<rparr>)) =
       insert ''travel'' (set (commonInterests sample_user sample_candidate))
   \<and> card (set (commonInterests sample_user sample_candidate)) < 5
   \<and> calculateCompatibilityScore clock_jan (sample_user\<lparr>interests := interests sample_user\<rparr>)
       (sample_candidate\<lparr>interests := ''travel'' # interests sample_candidate\<rparr>) None =
     calculateCompatibilityScore clock_jan sample_user sample_candidate None + 4"
proof -
  have h1: "distinct (interests sample_user)"
    by (simp add: sample_user_def)
  have h3: "''travel'' \<notin> set (commonInterests sample_user sample_candidate)"
    by (simp add: commonInterests_def js_includes_def sample_user_def sample_candidate_def)
  have h4: "set (commonInterests (sample_user\<lparr>interests := interests sample_user\<rparr>)
            (sample_candidate\<lparr>interests := ''travel'' # interests sample_candidate\<rparr>)) =
       insert ''travel'' (set (commonInterests sample_user sample_candidate))"
    by (auto simp: commonInterests_def js_includes_def sample_user_def sample_candidate_def)
  have h5: "card (set (commonInterests sample_user sample_candidate)) < 5"
    by (simp add: commonInterests_def js_includes_def sample_user_def sample_candidate_def)
  from score_monotone_in_shared_interests [OF h1 h1 h3 h4, of clock_jan None] h5 have h6:
    "calculateCompatibilityScore clock_jan (sample_user\<lparr>interests := interests sample_user\<rparr>)
       (sample_candidate\<lparr>interests := ''travel'' # interests sample_candidate\<rparr>) None =
     calculateCompatibilityScore clock_jan sample_user sample_candidate None + 4"
    by blast
  from h1 h3 h4 h5 h6 show ?thesis by blast
qed

section \<open>Properties of the recommendations\<close>

lemma js_slice0_nonneg: "0 \<le> limit \<Longrightarrow> js_slice0 limit xs = take (nat limit) xs"
  by (simp add: js_slice0_def)

lemma set_js_slice0: "set (js_slice0 limit xs) \<subseteq> set xs"
  by (auto simp: js_slice0_def dest: in_set_takeD)

lemma sorted_wrt_js_slice0: "sorted_wrt R xs \<Longrightarrow> sorted_wrt R (js_slice0 limit xs)"
  by (simp add: js_slice0_def)

lemma sort_key_neg_descending:
  "sorted_wrt (\<lambda>a b. f a \<ge> f b) (sort_key (\<lambda>c. - f c) xs)" for f :: "'a \<Rightarrow> int"
proof -
  have "sorted (map (\<lambda>c. - f c) (sort_key (\<lambda>c. - f c) xs))"
    by (rule sorted_sort_key)
  then show ?thesis
    by (simp add: sorted_wrt_map)
qed

lemma rankCandidates_descending:
  "sorted_wrt (\<lambda>a b. compatibilityScore a \<ge> compatibilityScore b)
     (rankCandidates now limit user preferences cands)"
  by (simp add: rankCandidates_def sorted_wrt_js_slice0 sort_key_neg_descending)

lemma rankCandidates_length:
  "0 \<le> limit \<Longrightarrow> int (length (rankCandidates now limit user preferences cands)) \<le> limit"
  by (simp add: rankCandidates_def js_slice0_nonneg)

lemma rankCandidates_set:
  "set (rankCandidates now limit user preferences cands) \<subseteq>
     (\<lambda>candidate. \<lparr>profile = candidate,
        compatibilityScore = calculateCompatibilityScore now user candidate preferences\<rparr>) `
       set cands"
proof -
  have "set (rankCandidates now limit user preferences cands) \<subseteq>
        set (sort_key (\<lambda>c. - compatibilityScore c)
               (map (\<lambda>candidate. \<lparr>profile = candidate,
                       compatibilityScore =
                         calculateCompatibilityScore now user candidate preferences\<rparr>) cands))"
    unfolding rankCandidates_def Let_def by (rule set_js_slice0)
  then show ?thesis by simp
qed

lemma userId_in_excludeIds: "userId \<in> set (excludeIds userId ms bs)"
proof -
  have add: "x \<in> set s \<Longrightarrow> x \<in> set (set_add s y)" for x y s
    by (simp add: set_add_def)
  have f1: "x \<in> set s \<Longrightarrow> x \<in> set (foldl (\<lambda>acc mt. set_add acc (g mt)) s rows)"
    for x s rows and g :: "'b \<Rightarrow> string"
    by (induction rows arbitrary: s) (simp_all add: add)
  have f2: "x \<in> set s \<Longrightarrow> x \<in> set (foldl set_add s rows)" for x s rows
    using f1 [of x s "\<lambda>r. r" rows] by simp
  show ?thesis
    unfolding excludeIds_def Let_def
    by (auto split: option.splits intro!: f1 f2)
qed

text \<open>
  Claim C7. For a limit that is a count (not negative), whatever the database
  answers, \<^verbatim>\<open>getRecommendations\<close> returns at most \<^verbatim>\<open>limit\<close> profiles, in
  non-increasing order of the compatibility score attached to them, which is the score
  of the profile with the requesting user; the requesting user's id is in
  \<^verbatim>\<open>excludeIds\<close>, the exclusion list of the candidate query, so that no returned
  profile is the user's own once the database has applied that exclusion.
\<close>

theorem getRecommendations_limited_sorted_excluding_self:
  assumes "0 \<le> limit"
  shows "int (length (getRecommendations now userId limit resp)) \<le> limit
     \<and> sorted_wrt (\<lambda>a b. compatibilityScore a \<ge> compatibilityScore b)
         (getRecommendations now userId limit resp)
     \<and> (\<forall>c \<in> set (getRecommendations now userId limit resp).
           \<exists>user. currentUser resp = Some user \<and>
             compatibilityScore c =
               calculateCompatibilityScore now user (profile c) (getUserPreferences resp))
     \<and> userId \<in> set (excludeIds userId (existingMatches resp) (blocks resp))
     \<and> (\<forall>user. userId \<in> set (q_not_in_ids (candidateQuery now userId limit user resp)))
     \<and> (\<forall>cands. candidates resp = Some cands \<and>
           list_all (\<lambda>p. p_id p \<notin> set (excludeIds userId (existingMatches resp) (blocks resp)))
             cands \<longrightarrow>
           list_all (\<lambda>c. p_id (profile c) \<noteq> userId) (getRecommendations now userId limit resp))"
proof -
  let ?res = "getRecommendations now userId limit resp"
  have res_cases:
    "?res = [] \<or>
     (\<exists>user cands. currentUser resp = Some user \<and> candidates resp = Some cands \<and>
        ?res = rankCandidates now limit user (getUserPreferences resp) cands)"
    by (auto simp: getRecommendations_def Let_def split: option.splits)
  have len: "int (length ?res) \<le> limit"
    using res_cases assms rankCandidates_length by auto
  have srt: "sorted_wrt (\<lambda>a b. compatibilityScore a \<ge> compatibilityScore b) ?res"
    using res_cases rankCandidates_descending by auto
  have scores: "\<forall>c \<in> set ?res. \<exists>user. currentUser resp = Some user \<and>
             compatibilityScore c =
               calculateCompatibilityScore now user (profile c) (getUserPreferences resp)"
    using res_cases rankCandidates_set by fastforce
  have excl: "userId \<in> set (excludeIds userId (existingMatches resp) (blocks resp))"
    by (rule userId_in_excludeIds)
  have query: "\<forall>user. userId \<in> set (q_not_in_ids (candidateQuery now userId limit user resp))"
    by (simp add: candidateQuery_def userId_in_excludeIds)
  have self: "\<forall>cands. candidates resp = Some cands \<and>
           list_all (\<lambda>p. p_id p \<notin> set (excludeIds userId (existingMatches resp) (blocks resp)))
             cands \<longrightarrow>
           list_all (\<lambda>c. p_id (profile c) \<noteq> userId) ?res"
  proof (intro allI impI)
    fix cands
    assume h: "candidates resp = Some cands \<and>
           list_all (\<lambda>p. p_id p \<notin> set (excludeIds userId (existingMatches resp) (blocks resp)))
             cands"
    then have no_self: "\<forall>p \<in> set cands. p_id p \<noteq> userId"
      using excl by (auto simp: list_all_iff)
    have "\<forall>c \<in> set ?res. p_id (profile c) \<noteq> userId"
    proof
      fix c assume c: "c \<in> set ?res"
      with res_cases h obtain user where
        "?res = rankCandidates now limit user (getUserPreferences resp) cands"
        by auto
      with c rankCandidates_set [of now limit user "getUserPreferences resp" cands]
      have "profile c \<in> set cands" by auto
      with no_self show "p_id (profile c) \<noteq> userId" by blast
    qed
    then show "list_all (\<lambda>c. p_id (profile c) \<noteq> userId) ?res"
      by (simp add: list_all_iff)
  qed
  from len srt scores excl query self show ?thesis by blast
qed

lemmas sample_profile_defs =
  sample_user_def sample_candidate_def sample_candidate3_def sample_candidate4_def
  sample_preferences_def

lemma sample_recommendations:
  "map (\<lambda>c. (p_id (profile c), compatibilityScore c))
     (getRecommendations clock_jan ''u1'' 2 sample_responses) = [(''u2'', 79), (''u3'', 78)]"
  by (simp add: getRecommendations_def rankCandidates_def getUserPreferences_def js_slice0_def
       sample_responses_def score_is_sum factor_defs clock_defs sample_profile_defs truthy_def)

lemma sample_excludeIds:
  "excludeIds ''u1'' (existingMatches sample_responses) (blocks sample_responses) =
     [''u1'', ''u7'', ''u8'', ''u9'']"
  by (simp add: excludeIds_def set_add_def sample_responses_def)

theorem getRecommendations_limited_sorted_excluding_self_witness:
  "(0::int) \<le> 2
   \<and> int (length (getRecommendations clock_jan ''u1'' 2 sample_responses)) \<le> 2
   \<and> sorted_wrt (\<lambda>a b. compatibilityScore a \<ge> compatibilityScore b)
       (getRecommendations clock_jan ''u1'' 2 sample_responses)
   \<and> map (\<lambda>c. (p_id (profile c), compatibilityScore c))
       (getRecommendations clock_jan ''u1'' 2 sample_responses) = [(''u2'', 79), (''u3'', 78)]
   \<and> candidates sample_responses = Some [sample_candidate4, sample_candidate, sample_candidate3]
   \<and> list_all
       (\<lambda>p. p_id p \<notin>
              set (excludeIds ''u1'' (existingMatches sample_responses) (blocks sample_responses)))
       [sample_candidate4, sample_candidate, sample_candidate3]
   \<and> list_all (\<lambda>c. p_id (profile c) \<noteq> ''u1'')
       (getRecommendations clock_jan ''u1'' 2 sample_responses)"
proof -
  have h: "(0::int) \<le> 2" by simp
  note t = getRecommendations_limited_sorted_excluding_self
             [OF h, of clock_jan "''u1''" sample_responses]
  have c: "candidates sample_responses =
           Some [sample_candidate4, sample_candidate, sample_candidate3]"
    by (simp add: sample_responses_def)
  have ex: "list_all
       (\<lambda>p. p_id p \<notin>
              set (excludeIds ''u1'' (existingMatches sample_responses) (blocks sample_responses)))
       [sample_candidate4, sample_candidate, sample_candidate3]"
    by (simp add: sample_excludeIds sample_profile_defs)
  from t c ex have self: "list_all (\<lambda>c. p_id (profile c) \<noteq> ''u1'')
       (getRecommendations clock_jan ''u1'' 2 sample_responses)"
    by blast
  from t have len: "int (length (getRecommendations clock_jan ''u1'' 2 sample_responses)) \<le> 2"
    and srt: "sorted_wrt (\<lambda>a b. compatibilityScore a \<ge> compatibilityScore b)
       (getRecommendations clock_jan ''u1'' 2 sample_responses)"
    by blast+
  from h len srt sample_recommendations c ex self show ?thesis by blast
qed

section \<open>Properties of likes and passes\<close>

lemma single_Some_mem: "single rows = Some r \<Longrightarrow> r \<in> set rows"
  by (auto simp: single_def split: list.splits)

lemma findExistingMatch_mem:
  "findExistingMatch db u t = Some e \<Longrightarrow> e \<in> set (matches db)"
  by (auto simp: findExistingMatch_def dest!: single_Some_mem)

lemma likedRow_flags:
  "is_mutual (likedRow now e u e) = otherLiked e u"
  "is_mutual (likedRow now e u e) =
     (user1_liked (likedRow now e u e) \<and> user2_liked (likedRow now e u e))"
  by (auto simp: likedRow_def otherLiked_def Let_def)

lemma likeUser_existing:
  assumes "findExistingMatch db u t = Some e"
  shows "matches (snd (likeUser now db u t)) =
           map (\<lambda>m. if m_id m = m_id e then likedRow now e u m else m) (matches db)"
    and "like_data (fst (likeUser now db u t)) =
           filter (\<lambda>m. m_id m = m_id e)
             (map (\<lambda>m. if m_id m = m_id e then likedRow now e u m else m) (matches db))"
    and "isMatch (fst (likeUser now db u t)) = otherLiked e u"
    and "chat_rooms (snd (likeUser now db u t)) =
           (if otherLiked e u \<and> \<not> is_mutual e
            then chat_rooms db @ [\<lparr>room_id = next_id db, match_id = m_id e\<rparr>]
            else chat_rooms db)"
  using assms
  by (simp_all add: likeUser_def Let_def likedRow_def otherLiked_def cong: if_cong)

lemma likeUser_none:
  assumes "findExistingMatch db u t = None"
  shows "matches (snd (likeUser now db u t)) =
           (if pairTaken db u t then matches db
            else matches db @
              [\<lparr>m_id = next_id db, user1_id = u, user2_id = t, user1_liked = True,
                user2_liked = False, is_mutual = False, matched_at = None\<rparr>])"
    and "like_data (fst (likeUser now db u t)) =
           (if pairTaken db u t then []
            else [\<lparr>m_id = next_id db, user1_id = u, user2_id = t, user1_liked = True,
                user2_liked = False, is_mutual = False, matched_at = None\<rparr>])"
    and "isMatch (fst (likeUser now db u t)) = False"
    and "chat_rooms (snd (likeUser now db u t)) = chat_rooms db"
  using assms by (simp_all add: likeUser_def Let_def)

lemma written_mem: "m \<in> set (written before after) \<longleftrightarrow> m \<in> set after \<and> m \<notin> set before"
  by (auto simp: written_def)

text \<open>With a primary key, an update by \<^verbatim>\<open>id\<close> changes the one row that carries it.\<close>

lemma updated_rows_pk:
  assumes "distinct (map m_id rows)" and "e \<in> set rows"
    and "m \<in> set (map (\<lambda>r. if m_id r = m_id e then f r else r) rows)"
  shows "m = f e \<or> (m \<in> set rows \<and> m_id m \<noteq> m_id e)"
proof -
  from assms(3) obtain r where r: "r \<in> set rows"
    and m: "m = (if m_id r = m_id e then f r else r)"
    by auto
  show ?thesis
  proof (cases "m_id r = m_id e")
    case True
    with assms(1,2) r have "r = e"
      by (meson distinct_map inj_onD)
    with m True show ?thesis by simp
  next
    case False
    with m r show ?thesis by simp
  qed
qed

lemma likeUser_rows:
  assumes pk: "distinct (map m_id (matches db))"
    and m: "m \<in> set (written (matches db) (matches (snd (likeUser now db u t)))) \<union>
                set (like_data (fst (likeUser now db u t)))"
  shows "(is_mutual m \<longleftrightarrow> user1_liked m \<and> user2_liked m) \<and>
         (is_mutual m \<longleftrightarrow> (\<exists>e. findExistingMatch db u t = Some e \<and> otherLiked e u))"
proof (cases "findExistingMatch db u t")
  case None
  with m have "m = \<lparr>m_id = next_id db, user1_id = u, user2_id = t, user1_liked = True,
                user2_liked = False, is_mutual = False, matched_at = None\<rparr>"
    by (auto simp: likeUser_none written_mem split: if_splits)
  with None show ?thesis by simp
next
  case (Some e)
  have e: "e \<in> set (matches db)"
    using Some by (rule findExistingMatch_mem)
  have "m \<in> set (map (\<lambda>r. if m_id r = m_id e then likedRow now e u r else r) (matches db))
        \<and> (m \<notin> set (matches db) \<or> m_id m = m_id e)"
    using m by (auto simp: likeUser_existing [OF Some] written_mem)
  then have "m = likedRow now e u e"
    using updated_rows_pk [OF pk e, of m "likedRow now e u"] by blast
  with Some likedRow_flags [of now e u] show ?thesis by simp
qed

lemma passUser_rows:
  assumes "m \<in> set (written (matches db) (matches (snd (passUser conflict db u t))))"
  shows "\<not> is_mutual m \<and> \<not> user1_liked m \<and> \<not> user2_liked m"
proof (cases "pairTaken db u t")
  case False
  with assms show ?thesis
    by (auto simp: passUser_def written_mem)
next
  case True
  show ?thesis
  proof (cases conflict)
    case OnPrimaryKey
    with True assms show ?thesis
      by (simp add: passUser_def written_mem)
  next
    case OnUserPair
    have new_rows: "matches (snd (passUser conflict db u t)) =
            map (\<lambda>r. if user1_id r = u \<and> user2_id r = t
                      then r\<lparr>user1_liked := False, user2_liked := False, is_mutual := False\<rparr>
                      else r) (matches db)"
      using True OnUserPair by (simp add: passUser_def)
    from assms have "m \<in> set (matches (snd (passUser conflict db u t)))"
      and old: "m \<notin> set (matches db)"
      by (simp_all add: written_mem)
    then obtain r where r: "r \<in> set (matches db)"
      and m: "m = (if user1_id r = u \<and> user2_id r = t
            then r\<lparr>user1_liked := False, user2_liked := False, is_mutual := False\<rparr> else r)"
      unfolding new_rows by auto
    show ?thesis
    proof (cases "user1_id r = u \<and> user2_id r = t")
      case True
      with m show ?thesis by simp
    next
      case False
      with m r old show ?thesis by simp
    qed
  qed
qed

lemma single_Some_iff: "single rows = Some r \<longleftrightarrow> rows = [r]"
  by (cases rows rule: list.exhaust; cases "tl rows") (auto simp: single_def)

lemma filter_eq_singleton: "distinct xs \<Longrightarrow> e \<in> set xs \<Longrightarrow> filter (\<lambda>m. m = e) xs = [e]"
  by (induction xs) (auto simp: filter_empty_conv)

lemma findExistingMatch_pairRows:
  "findExistingMatch db u t = single (pairRows db u t)"
  by (simp add: findExistingMatch_def pairRows_def)

lemma pairRows_mem:
  "m \<in> set (pairRows db u t) \<longleftrightarrow>
     m \<in> set (matches db) \<and>
     ((user1_id m = u \<and> user2_id m = t) \<or> (user1_id m = t \<and> user2_id m = u))"
  by (auto simp: pairRows_def)

text \<open>What the lookup's row says of the other participant is a like the table records.\<close>

lemma otherLiked_hasLiked:
  assumes "findExistingMatch db u t = Some e" and "otherLiked e u"
  shows "hasLiked db t u"
proof -
  from assms(1) have "e \<in> set (pairRows db u t)"
    by (simp add: findExistingMatch_pairRows single_Some_iff)
  then have e: "e \<in> set (matches db)"
    and p: "(user1_id e = u \<and> user2_id e = t) \<or> (user1_id e = t \<and> user2_id e = u)"
    by (simp_all add: pairRows_mem)
  from p assms(2) have
    "(user1_id e = t \<and> user2_id e = u \<and> user1_liked e) \<or>
     (user2_id e = t \<and> user1_id e = u \<and> user2_liked e)"
    by (auto simp: otherLiked_def split: if_splits)
  with e show ?thesis
    unfolding hasLiked_def list_ex_iff by blast
qed

text \<open>With one row for the pair of two different users, the converse holds as well.\<close>

lemma hasLiked_otherLiked:
  assumes "u \<noteq> t" and "pairRows db u t = [e]" and "hasLiked db t u"
  shows "otherLiked e u"
proof -
  from assms(3) obtain m where m: "m \<in> set (matches db)"
    and l: "(user1_id m = t \<and> user2_id m = u \<and> user1_liked m) \<or>
            (user2_id m = t \<and> user1_id m = u \<and> user2_liked m)"
    unfolding hasLiked_def list_ex_iff by blast
  from m l have "m \<in> set (pairRows db u t)"
    by (auto simp: pairRows_mem)
  with assms(2) have "m = e" by simp
  with l assms(1) show ?thesis
    by (auto simp: otherLiked_def)
qed

text \<open>
  Claim C5, as stated, fails in its second part. \<open>u5\<close> likes \<open>u1\<close>, then \<open>u1\<close>
  passes \<open>u5\<close>: the pass inserts a second row for the pair, in the other order. When
  \<open>u1\<close> now likes \<open>u5\<close>, who has already liked them, the lookup selects two rows,
  \<^verbatim>\<open>.single()\<close> gives \<^verbatim>\<open>null\<close>, and no row is marked mutual.
\<close>

theorem like_after_pass_marks_nothing_mutual:
  "matches liked_then_passed_db =
     [\<lparr>m_id = 0, user1_id = ''u5'', user2_id = ''u1'', user1_liked = True,
       user2_liked = False, is_mutual = False, matched_at = None\<rparr>,
      \<lparr>m_id = 1, user1_id = ''u1'', user2_id = ''u5'', user1_liked = False,
       user2_liked = False, is_mutual = False, matched_at = None\<rparr>]
   \<and> hasLiked liked_then_passed_db ''u5'' ''u1''
   \<and> isMatch (fst (likeUser sample_now liked_then_passed_db ''u1'' ''u5'')) = False
   \<and> like_data (fst (likeUser sample_now liked_then_passed_db ''u1'' ''u5'')) = []
   \<and> map is_mutual (matches (snd (likeUser sample_now liked_then_passed_db ''u1'' ''u5''))) =
       [False, False]"
proof -
  have first: "snd (likeUser sample_now empty_matching_db ''u5'' ''u1'') =
     \<lparr>matches = [\<lparr>m_id = 0, user1_id = ''u5'', user2_id = ''u1'', user1_liked = True,
       user2_liked = False, is_mutual = False, matched_at = None\<rparr>],
      chat_rooms = [], next_id = 1\<rparr>"
    by (simp add: likeUser_def findExistingMatch_def single_def pairTaken_def
        empty_matching_db_def Let_def)
  have db: "liked_then_passed_db =
     \<lparr>matches = [\<lparr>m_id = 0, user1_id = ''u5'', user2_id = ''u1'', user1_liked = True,
       user2_liked = False, is_mutual = False, matched_at = None\<rparr>,
      \<lparr>m_id = 1, user1_id = ''u1'', user2_id = ''u5'', user1_liked = False,
       user2_liked = False, is_mutual = False, matched_at = None\<rparr>],
      chat_rooms = [], next_id = 2\<rparr>"
    unfolding liked_then_passed_db_def first
    by (simp add: passUser_def pairTaken_def)
  show ?thesis
    unfolding db
    by (simp add: likeUser_def findExistingMatch_def single_def pairTaken_def hasLiked_def
        Let_def)
qed

text \<open>
  Claim C5, amended. In a \<^verbatim>\<open>matches\<close> table whose \<^verbatim>\<open>id\<close> is a key, every row that
  \<^verbatim>\<open>likeUser\<close> writes (the rows it returns, and the rows the table holds afterwards and
  did not hold before) is mutual only if both likes are set, and only if the table
  recorded a like of the liked user for the liker. When the table holds exactly one
  row for the pair of two different users, \<^verbatim>\<open>likeUser\<close> writes that row and marks it
  mutual exactly when the liked user had already liked the liker. A row that
  \<^verbatim>\<open>likeUser\<close> inserts (its \<^verbatim>\<open>id\<close> is new) is not mutual, and neither is any row that
  \<^verbatim>\<open>passUser\<close> writes.
\<close>

theorem written_match_rows_mutual_only_if_both_liked:
  assumes "distinct (map m_id (matches db))"
  shows "(\<forall>m \<in> set (written (matches db) (matches (snd (likeUser now db userId targetUserId)))) \<union>
               set (like_data (fst (likeUser now db userId targetUserId))).
            (is_mutual m \<longrightarrow> user1_liked m \<and> user2_liked m) \<and>
            (is_mutual m \<longrightarrow> hasLiked db targetUserId userId) \<and>
            (m_id m \<notin> set (map m_id (matches db)) \<longrightarrow> \<not> is_mutual m))
       \<and> (userId \<noteq> targetUserId \<and> length (pairRows db userId targetUserId) = 1 \<longrightarrow>
            (\<exists>m. like_data (fst (likeUser now db userId targetUserId)) = [m] \<and>
                 m \<in> set (matches (snd (likeUser now db userId targetUserId))) \<and>
                 (is_mutual m \<longleftrightarrow> hasLiked db targetUserId userId) \<and>
                 isMatch (fst (likeUser now db userId targetUserId)) =
                   hasLiked db targetUserId userId))
       \<and> (\<forall>m \<in> set (written (matches db)
                       (matches (snd (passUser conflict db userId targetUserId)))).
            \<not> is_mutual m \<and> (is_mutual m \<longrightarrow> user1_liked m \<and> user2_liked m))"
proof -
  let ?L = "likeUser now db userId targetUserId"
  have like: "(is_mutual m \<longrightarrow> user1_liked m \<and> user2_liked m) \<and>
              (is_mutual m \<longrightarrow> hasLiked db targetUserId userId) \<and>
              (m_id m \<notin> set (map m_id (matches db)) \<longrightarrow> \<not> is_mutual m)"
    if m: "m \<in> set (written (matches db) (matches (snd ?L))) \<union> set (like_data (fst ?L))" for m
  proof -
    note r = likeUser_rows [OF assms m]
    have only: "is_mutual m \<longrightarrow> hasLiked db targetUserId userId"
      using r otherLiked_hasLiked by blast
    have fresh: "m_id m \<notin> set (map m_id (matches db)) \<longrightarrow> \<not> is_mutual m"
    proof (cases "findExistingMatch db userId targetUserId")
      case None
      from r have "is_mutual m \<longleftrightarrow>
          (\<exists>e. findExistingMatch db userId targetUserId = Some e \<and> otherLiked e userId)"
        by (rule conjunct2)
      with None have "\<not> is_mutual m" by simp
      then show ?thesis by simp
    next
      case (Some e)
      have e: "e \<in> set (matches db)"
        using Some by (rule findExistingMatch_mem)
      have "m \<in> set (map (\<lambda>r. if m_id r = m_id e then likedRow now e userId r else r)
                       (matches db))"
        using m by (auto simp: likeUser_existing [OF Some] written_mem)
      then have "m = likedRow now e userId e \<or> m \<in> set (matches db)"
        using updated_rows_pk [OF assms e, of m "likedRow now e userId"] by blast
      moreover have "m_id (likedRow now e userId e) = m_id e"
        by (simp add: likedRow_def Let_def)
      ultimately have "m_id m \<in> set (map m_id (matches db))"
        using e by auto
      then show ?thesis by simp
    qed
    from r only fresh show ?thesis by blast
  qed
  have one: "\<exists>m. like_data (fst ?L) = [m] \<and> m \<in> set (matches (snd ?L)) \<and>
                 (is_mutual m \<longleftrightarrow> hasLiked db targetUserId userId) \<and>
                 isMatch (fst ?L) = hasLiked db targetUserId userId"
    if ne: "userId \<noteq> targetUserId" and len: "length (pairRows db userId targetUserId) = 1"
  proof -
    from len obtain e where rows: "pairRows db userId targetUserId = [e]"
      by (cases "pairRows db userId targetUserId") auto
    then have found: "findExistingMatch db userId targetUserId = Some e"
      by (simp add: findExistingMatch_pairRows single_Some_iff)
    have e: "e \<in> set (matches db)"
      using found by (rule findExistingMatch_mem)
    have iff: "otherLiked e userId \<longleftrightarrow> hasLiked db targetUserId userId"
      using otherLiked_hasLiked [OF found] hasLiked_otherLiked [OF ne rows] by blast
    have same: "r \<in> set (matches db) \<Longrightarrow> m_id r = m_id e \<Longrightarrow> r = e" for r
      using assms e by (meson distinct_map inj_onD)
    have "filter (\<lambda>m. m_id m = m_id e)
            (map (\<lambda>m. if m_id m = m_id e then likedRow now e userId m else m) (matches db)) =
          map (likedRow now e userId) (filter (\<lambda>m. m_id m = m_id e) (matches db))"
      by (induction "matches db") (auto simp: likedRow_def Let_def filter_map comp_def)
    moreover have "filter (\<lambda>m. m_id m = m_id e) (matches db) = [e]"
    proof -
      have "filter (\<lambda>m. m_id m = m_id e) (matches db) = filter (\<lambda>m. m = e) (matches db)"
        using same by (intro filter_cong) auto
      also have "\<dots> = [e]"
      proof -
        have "distinct (matches db)"
          using assms by (simp add: distinct_map)
        then show ?thesis
          using e by (rule filter_eq_singleton)
      qed
      finally show ?thesis .
    qed
    ultimately have data: "like_data (fst ?L) = [likedRow now e userId e]"
      by (simp add: likeUser_existing(2) [OF found])
    have mem: "likedRow now e userId e \<in> set (matches (snd ?L))"
      using e by (force simp: likeUser_existing(1) [OF found])
    have mut: "is_mutual (likedRow now e userId e) \<longleftrightarrow> hasLiked db targetUserId userId"
      using iff by (simp add: likedRow_flags(1))
    have im: "isMatch (fst ?L) = hasLiked db targetUserId userId"
      using iff by (simp add: likeUser_existing(3) [OF found])
    from data mem mut im show ?thesis by blast
  qed
  have pass: "\<forall>m \<in> set (written (matches db)
                       (matches (snd (passUser conflict db userId targetUserId)))).
            \<not> is_mutual m \<and> (is_mutual m \<longrightarrow> user1_liked m \<and> user2_liked m)"
    using passUser_rows by blast
  from like one pass show ?thesis by blast
qed

lemma sample_lookup_u2:
  "findExistingMatch sample_matching_db ''u1'' ''u2'' =
     Some \<lparr>m_id = 0, user1_id = ''u2'', user2_id = ''u1'', user1_liked = True,
           user2_liked = False, is_mutual = False, matched_at = None\<rparr>"
  by (simp add: findExistingMatch_def single_def sample_matching_db_def)


lemma sample_like_data:
  "like_data (fst (likeUser sample_now sample_matching_db ''u1'' ''u2'')) =
     [\<lparr>m_id = 0, user1_id = ''u2'', user2_id = ''u1'', user1_liked = True,
       user2_liked = True, is_mutual = True, matched_at = Some sample_now\<rparr>]"
  unfolding likeUser_existing(2) [OF sample_lookup_u2]
  by (simp add: likedRow_def otherLiked_def Let_def sample_matching_db_def)

theorem written_match_rows_mutual_only_if_both_liked_witness:
  "distinct (map m_id (matches sample_matching_db))
   \<and> ''u1'' \<noteq> ''u2''
   \<and> length (pairRows sample_matching_db ''u1'' ''u2'') = 1
   \<and> hasLiked sample_matching_db ''u2'' ''u1''
   \<and> isMatch (fst (likeUser sample_now sample_matching_db ''u1'' ''u2''))
   \<and> like_data (fst (likeUser sample_now sample_matching_db ''u1'' ''u2'')) =
       [\<lparr>m_id = 0, user1_id = ''u2'', user2_id = ''u1'', user1_liked = True,
         user2_liked = True, is_mutual = True, matched_at = Some sample_now\<rparr>]"
proof -
  have pk: "distinct (map m_id (matches sample_matching_db))"
    by (simp add: sample_matching_db_def)
  have ne: "''u1'' \<noteq> ''u2''"
    by simp
  have one: "length (pairRows sample_matching_db ''u1'' ''u2'') = 1"
    by (simp add: pairRows_def sample_matching_db_def)
  have liked: "hasLiked sample_matching_db ''u2'' ''u1''"
    by (simp add: hasLiked_def sample_matching_db_def)
  from written_match_rows_mutual_only_if_both_liked
         [OF pk, of sample_now "''u1''" "''u2''" OnPrimaryKey] ne one
  have "isMatch (fst (likeUser sample_now sample_matching_db ''u1'' ''u2'')) =
          hasLiked sample_matching_db ''u2'' ''u1''"
    by blast
  with liked have m: "isMatch (fst (likeUser sample_now sample_matching_db ''u1'' ''u2''))"
    by simp
  from pk ne one liked m sample_like_data show ?thesis by blast
qed



section \<open>Properties of reports and escalation\<close>

lemma applySafetyAction_actions:
  "safety_actions (snd (applySafetyAction now db userId ad)) =
     safety_actions db @
       [\<lparr>sa_id = r_next_id db, sa_user_id = userId, action_type = ad_action_type ad,
         reason = ad_reason ad, duration = ad_duration ad, applied_by = ad_applied_by ad,
         applied_at = now\<rparr>]"
  by (simp add: applySafetyAction_def Let_def createNotification_def)

lemma applySafetyAction_reports:
  "reports (snd (applySafetyAction now db userId ad)) = reports db"
  by (simp add: applySafetyAction_def Let_def createNotification_def)

lemma checkForAutomaticActions_reports:
  "reports (checkForAutomaticActions now db userId reportType) = reports db"
  by (simp add: checkForAutomaticActions_def Let_def applySafetyAction_reports)

lemma notifyAdmins_frame:
  "reports (notifyAdminsOfNewReport db r) = reports db"
  "safety_actions (notifyAdminsOfNewReport db r) = safety_actions db"
  "accounts (notifyAdminsOfNewReport db r) = accounts db"
  by (simp_all add: notifyAdminsOfNewReport_def Let_def)

lemma createReport_eq:
  "createReport now db rd =
     (Some (newReportRow now (r_next_id db) rd),
      checkForAutomaticActions now (withNewReport now db rd) (in_reported_user_id rd)
        (in_report_type rd))"
  by (simp add: createReport_def withNewReport_def Let_def)

lemma withNewReport_frame:
  "reports (withNewReport now db rd) = reports db @ [newReportRow now (r_next_id db) rd]"
  "safety_actions (withNewReport now db rd) = safety_actions db"
  "accounts (withNewReport now db rd) = accounts db"
  by (simp_all add: withNewReport_def notifyAdmins_frame)

text \<open>The new report is itself one of the reports that the escalation counts.\<close>

lemma withNewReport_count:
  "recentReportCount now (withNewReport now db rd) (in_reported_user_id rd) (in_report_type rd) =
   Suc (recentReportCount now db (in_reported_user_id rd) (in_report_type rd))"
  by (simp add: recentReportCount_def withNewReport_frame newReportRow_def)

lemma applySafetyAction_accounts:
  "accounts (snd (applySafetyAction now db userId ad)) =
     (case ad_action_type ad of
        TemporaryBan \<Rightarrow>
          map (\<lambda>a. if acc_id a = userId
                    then a\<lparr>account_status := ''suspended'',
                           suspension_until :=
                             Some (now + durationOr24 (ad_duration ad) * 60 * 60 * 1000)\<rparr>
                    else a) (accounts db)
      | PermanentBan \<Rightarrow>
          map (\<lambda>a. if acc_id a = userId
                    then a\<lparr>account_status := ''banned'', banned_at := Some now\<rparr>
                    else a) (accounts db)
      | ProfileReview \<Rightarrow>
          map (\<lambda>a. if acc_id a = userId then a\<lparr>account_status := ''under_review''\<rparr> else a)
            (accounts db)
      | _ \<Rightarrow> accounts db)"
  by (cases "ad_action_type ad")
     (simp_all add: applySafetyAction_def Let_def createNotification_def emptyUpdate_def
        applyAccountUpdate_def)

text \<open>
  Claim C2. \<^verbatim>\<open>checkForAutomaticActions\<close> counts the reports against the user that have
  the given type and were created in the last 30 days. When that count reaches a
  threshold it applies exactly one action, recorded in \<^verbatim>\<open>safety_actions\<close> for that user
  and carried out on the user's account: at 5 reports of harassment a temporary ban of
  72 hours (the account is suspended until then); else at 3 reports of inappropriate
  content a profile review (the account is under review); else at 10 reports a
  permanent ban (the account is banned). Each is one of the four actions the claim
  lists. When no threshold is reached the store is left exactly as it was. The table
  of reports is never changed. \<^verbatim>\<open>createReport\<close> runs the routine on the store that
  holds the new report, so the new report is counted.
\<close>

theorem escalation_applies_one_action_when_threshold_reached:
  "(let n = length (filter (\<lambda>r. reported_user_id r = userId \<and> report_type r = reportType \<and>
                               now - 30 * 24 * 60 * 60 * 1000 \<le> created_at r)
                     (reports db));
        db' = checkForAutomaticActions now db userId reportType;
        recorded = (\<lambda>kind hours why.
                      safety_actions db @
                        [\<lparr>sa_id = r_next_id db, sa_user_id = userId, action_type = kind,
                          reason = why, duration = hours, applied_by = ''system'',
                          applied_at = now\<rparr>])
    in recentReportCount now db userId reportType = n
     \<and> reports db' = reports db
     \<and> (if 5 \<le> n \<and> reportType = ''harassment''
         then safety_actions db' = recorded TemporaryBan (Some 72) RepeatedHarassmentReports \<and>
              accounts db' =
                map (\<lambda>a. if acc_id a = userId
                          then a\<lparr>account_status := ''suspended'',
                                 suspension_until := Some (now + 72 * 60 * 60 * 1000)\<rparr>
                          else a) (accounts db)
         else if 3 \<le> n \<and> reportType = ''inappropriate_content''
         then safety_actions db' =
                recorded ProfileReview None RepeatedInappropriateContentReports \<and>
              accounts db' =
                map (\<lambda>a. if acc_id a = userId then a\<lparr>account_status := ''under_review''\<rparr>
                          else a) (accounts db)
         else if 10 \<le> n
         then safety_actions db' = recorded PermanentBan None RepeatedReports \<and>
              accounts db' =
                map (\<lambda>a. if acc_id a = userId
                          then a\<lparr>account_status := ''banned'', banned_at := Some now\<rparr>
                          else a) (accounts db)
         else db' = db)
     \<and> list_all (\<lambda>a. action_type a \<in> {Warning, TemporaryBan, ProfileReview, PermanentBan} \<and>
                      sa_user_id a = userId)
         (drop (length (safety_actions db)) (safety_actions db'))
     \<and> length (drop (length (safety_actions db)) (safety_actions db')) \<le> 1)
   \<and> snd (createReport now db rd) =
       checkForAutomaticActions now (withNewReport now db rd) (in_reported_user_id rd)
         (in_report_type rd)
   \<and> reports (withNewReport now db rd) = reports db @ [newReportRow now (r_next_id db) rd]
   \<and> safety_actions (withNewReport now db rd) = safety_actions db
   \<and> accounts (withNewReport now db rd) = accounts db
   \<and> recentReportCount now (withNewReport now db rd) (in_reported_user_id rd)
         (in_report_type rd) =
       Suc (recentReportCount now db (in_reported_user_id rd) (in_report_type rd))"
proof -
  let ?n = "recentReportCount now db userId reportType"
  let ?db' = "checkForAutomaticActions now db userId reportType"
  let ?rec = "\<lambda>kind hours why.
                      safety_actions db @
                        [\<lparr>sa_id = r_next_id db, sa_user_id = userId, action_type = kind,
                          reason = why, duration = hours, applied_by = ''system'',
                          applied_at = now\<rparr>]"
  have count: "?n = length (filter (\<lambda>r. reported_user_id r = userId \<and>
                     report_type r = reportType \<and>
                     now - 30 * 24 * 60 * 60 * 1000 \<le> created_at r) (reports db))"
    by (simp add: recentReportCount_def)
  have reps: "reports ?db' = reports db"
    by (rule checkForAutomaticActions_reports)
  have branches:
    "if 5 \<le> ?n \<and> reportType = ''harassment''
     then safety_actions ?db' = ?rec TemporaryBan (Some 72) RepeatedHarassmentReports \<and>
          accounts ?db' =
            map (\<lambda>a. if acc_id a = userId
                      then a\<lparr>account_status := ''suspended'',
                             suspension_until := Some (now + 72 * 60 * 60 * 1000)\<rparr>
                      else a) (accounts db)
     else if 3 \<le> ?n \<and> reportType = ''inappropriate_content''
     then safety_actions ?db' = ?rec ProfileReview None RepeatedInappropriateContentReports \<and>
          accounts ?db' =
            map (\<lambda>a. if acc_id a = userId then a\<lparr>account_status := ''under_review''\<rparr>
                      else a) (accounts db)
     else if 10 \<le> ?n
     then safety_actions ?db' = ?rec PermanentBan None RepeatedReports \<and>
          accounts ?db' =
            map (\<lambda>a. if acc_id a = userId
                      then a\<lparr>account_status := ''banned'', banned_at := Some now\<rparr>
                      else a) (accounts db)
     else ?db' = db"
  proof (cases "5 \<le> ?n \<and> reportType = ''harassment''")
    case True
    then have "?db' = snd (applySafetyAction now db userId
                     \<lparr>ad_action_type = TemporaryBan, ad_reason = RepeatedHarassmentReports,
                      ad_duration = Some 72, ad_applied_by = ''system''\<rparr>)"
      by (auto simp add: checkForAutomaticActions_def Let_def)
    with True show ?thesis
      by (auto simp add: applySafetyAction_actions applySafetyAction_accounts durationOr24_def)
  next
    case h: False
    show ?thesis
    proof (cases "3 \<le> ?n \<and> reportType = ''inappropriate_content''")
      case True
      with h have "?db' = snd (applySafetyAction now db userId
                     \<lparr>ad_action_type = ProfileReview,
                      ad_reason = RepeatedInappropriateContentReports,
                      ad_duration = None, ad_applied_by = ''system''\<rparr>)"
        by (auto simp add: checkForAutomaticActions_def Let_def)
      with h True show ?thesis
        by (auto simp add: applySafetyAction_actions applySafetyAction_accounts)
    next
      case c: False
      show ?thesis
      proof (cases "10 \<le> ?n")
        case True
        with h c have "?db' = snd (applySafetyAction now db userId
                     \<lparr>ad_action_type = PermanentBan, ad_reason = RepeatedReports,
                      ad_duration = None, ad_applied_by = ''system''\<rparr>)"
          by (auto simp add: checkForAutomaticActions_def Let_def)
        with h c True show ?thesis
          by (auto simp add: applySafetyAction_actions applySafetyAction_accounts)
      next
        case False
        with h c have "?db' = db"
          by (auto simp add: checkForAutomaticActions_def Let_def)
        with h c False show ?thesis
          by auto
      qed
    qed
  qed
  have new: "list_all (\<lambda>a. action_type a \<in> {Warning, TemporaryBan, ProfileReview, PermanentBan} \<and>
                      sa_user_id a = userId)
         (drop (length (safety_actions db)) (safety_actions ?db'))
     \<and> length (drop (length (safety_actions db)) (safety_actions ?db')) \<le> 1"
    by (simp add: checkForAutomaticActions_def Let_def applySafetyAction_actions)
  have first: "let n = length (filter (\<lambda>r. reported_user_id r = userId \<and>
                               report_type r = reportType \<and>
                               now - 30 * 24 * 60 * 60 * 1000 \<le> created_at r)
                     (reports db));
        db' = checkForAutomaticActions now db userId reportType;
        recorded = (\<lambda>kind hours why.
                      safety_actions db @
                        [\<lparr>sa_id = r_next_id db, sa_user_id = userId, action_type = kind,
                          reason = why, duration = hours, applied_by = ''system'',
                          applied_at = now\<rparr>])
    in recentReportCount now db userId reportType = n
     \<and> reports db' = reports db
     \<and> (if 5 \<le> n \<and> reportType = ''harassment''
         then safety_actions db' = recorded TemporaryBan (Some 72) RepeatedHarassmentReports \<and>
              accounts db' =
                map (\<lambda>a. if acc_id a = userId
                          then a\<lparr>account_status := ''suspended'',
                                 suspension_until := Some (now + 72 * 60 * 60 * 1000)\<rparr>
                          else a) (accounts db)
         else if 3 \<le> n \<and> reportType = ''inappropriate_content''
         then safety_actions db' =
                recorded ProfileReview None RepeatedInappropriateContentReports \<and>
              accounts db' =
                map (\<lambda>a. if acc_id a = userId then a\<lparr>account_status := ''under_review''\<rparr>
                          else a) (accounts db)
         else if 10 \<le> n
         then safety_actions db' = recorded PermanentBan None RepeatedReports \<and>
              accounts db' =
                map (\<lambda>a. if acc_id a = userId
                          then a\<lparr>account_status := ''banned'', banned_at := Some now\<rparr>
                          else a) (accounts db)
         else db' = db)
     \<and> list_all (\<lambda>a. action_type a \<in> {Warning, TemporaryBan, ProfileReview, PermanentBan} \<and>
                      sa_user_id a = userId)
         (drop (length (safety_actions db)) (safety_actions db'))
     \<and> length (drop (length (safety_actions db)) (safety_actions db')) \<le> 1"
    unfolding Let_def count [symmetric]
    using reps branches new by blast
  have second: "snd (createReport now db rd) =
       checkForAutomaticActions now (withNewReport now db rd) (in_reported_user_id rd)
         (in_report_type rd)"
    by (simp add: createReport_eq)
  from first second withNewReport_frame [of now db rd] withNewReport_count [of now db rd]
  show ?thesis by blast
qed

lemma three_content_count:
  "recentReportCount sample_now three_content_reports_db ''u2'' ''inappropriate_content'' = 3"
  by (simp add: recentReportCount_def three_content_reports_db_def sample_report_def
      sample_now_def)

lemma two_spam_count:
  "recentReportCount sample_now two_spam_reports_db ''u2'' ''spam'' = 2"
  by (simp add: recentReportCount_def two_spam_reports_db_def sample_report_def sample_now_def)

text \<open>
  The claim at two inputs: three recent reports of inappropriate content give one
  profile review and put the account under review; two recent reports of spam give
  nothing.
\<close>

theorem escalation_applies_one_action_when_threshold_reached_witness:
  "recentReportCount sample_now three_content_reports_db ''u2'' ''inappropriate_content'' = 3
   \<and> map (\<lambda>a. (sa_user_id a, action_type a))
       (safety_actions
          (checkForAutomaticActions sample_now three_content_reports_db ''u2''
             ''inappropriate_content'')) =
     [(''u2'', ProfileReview)]
   \<and> map (\<lambda>a. (acc_id a, account_status a))
       (accounts
          (checkForAutomaticActions sample_now three_content_reports_db ''u2''
             ''inappropriate_content'')) =
     [(''u2'', ''under_review''), (''a1'', ''active'')]
   \<and> recentReportCount sample_now two_spam_reports_db ''u2'' ''spam'' = 2
   \<and> checkForAutomaticActions sample_now two_spam_reports_db ''u2'' ''spam'' =
     two_spam_reports_db"
proof -
  note t3 = escalation_applies_one_action_when_threshold_reached
              [of "''u2''" "''inappropriate_content''" sample_now three_content_reports_db
                  spam_report]
  note t2 = escalation_applies_one_action_when_threshold_reached
              [of "''u2''" "''spam''" sample_now two_spam_reports_db spam_report]
  have a: "safety_actions
          (checkForAutomaticActions sample_now three_content_reports_db ''u2''
             ''inappropriate_content'') =
        safety_actions three_content_reports_db @
          [\<lparr>sa_id = r_next_id three_content_reports_db, sa_user_id = ''u2'',
            action_type = ProfileReview, reason = RepeatedInappropriateContentReports,
            duration = None, applied_by = ''system'', applied_at = sample_now\<rparr>]
      \<and> accounts
          (checkForAutomaticActions sample_now three_content_reports_db ''u2''
             ''inappropriate_content'') =
        map (\<lambda>a. if acc_id a = ''u2'' then a\<lparr>account_status := ''under_review''\<rparr> else a)
          (accounts three_content_reports_db)"
    using t3 three_content_count by (simp add: Let_def)
  have b: "checkForAutomaticActions sample_now two_spam_reports_db ''u2'' ''spam'' =
     two_spam_reports_db"
    using t2 two_spam_count by (simp add: Let_def)
  from a have a1: "map (\<lambda>a. (sa_user_id a, action_type a))
       (safety_actions
          (checkForAutomaticActions sample_now three_content_reports_db ''u2''
             ''inappropriate_content'')) =
     [(''u2'', ProfileReview)]"
    by (simp add: three_content_reports_db_def)
  from a have a2: "map (\<lambda>a. (acc_id a, account_status a))
       (accounts
          (checkForAutomaticActions sample_now three_content_reports_db ''u2''
             ''inappropriate_content'')) =
     [(''u2'', ''under_review''), (''a1'', ''active'')]"
    by (simp add: three_content_reports_db_def sample_accounts_def)
  from three_content_count a1 a2 two_spam_count b show ?thesis by blast
qed

text \<open>
  Claim C3, evaluated on the code. Nine reports of harassment against a user in the
  last nine days, and a tenth one created now: the count is 10, yet the action the
  escalation records is the temporary ban of the harassment branch, which the chain
  tests first; the account is suspended and not banned. The permanent-ban branch
  (\<^verbatim>\<open>reportCount >= 10\<close>), which the source's comment gives for any type, is not
  reached for this type.
\<close>

theorem harassment_tenth_report_gives_temporary_ban:
  "recentReportCount sample_now
     (snd (createReport sample_now nine_harassment_reports_db tenth_harassment_report))
     ''u2'' ''harassment'' = 10
   \<and> map action_type
       (safety_actions
          (snd (createReport sample_now nine_harassment_reports_db tenth_harassment_report))) =
     [TemporaryBan]
   \<and> map (\<lambda>a. (acc_id a, account_status a, banned_at a))
       (accounts
          (snd (createReport sample_now nine_harassment_reports_db tenth_harassment_report))) =
     [(''u2'', ''suspended'', None), (''a1'', ''active'', None)]"
proof -
  let ?db1 = "withNewReport sample_now nine_harassment_reports_db tenth_harassment_report"
  have nine: "recentReportCount sample_now nine_harassment_reports_db ''u2'' ''harassment'' = 9"
    by (simp add: recentReportCount_def nine_harassment_reports_db_def sample_report_def
        sample_now_def)
  have n1: "recentReportCount sample_now ?db1 ''u2'' ''harassment'' = 10"
    using withNewReport_count [of sample_now nine_harassment_reports_db tenth_harassment_report]
    by (simp add: nine tenth_harassment_report_def)
  have n: "recentReportCount sample_now
     (snd (createReport sample_now nine_harassment_reports_db tenth_harassment_report))
     ''u2'' ''harassment'' = 10"
    using n1
    by (simp add: recentReportCount_def createReport_eq checkForAutomaticActions_reports)
  have step: "snd (createReport sample_now nine_harassment_reports_db tenth_harassment_report) =
      snd (applySafetyAction sample_now ?db1 ''u2''
             \<lparr>ad_action_type = TemporaryBan, ad_reason = RepeatedHarassmentReports,
              ad_duration = Some 72, ad_applied_by = ''system''\<rparr>)"
    using n1 by (simp add: createReport_eq checkForAutomaticActions_def tenth_harassment_report_def)
  have acts: "map action_type
       (safety_actions
          (snd (createReport sample_now nine_harassment_reports_db tenth_harassment_report))) =
     [TemporaryBan]"
    unfolding step
    by (simp add: applySafetyAction_actions withNewReport_frame nine_harassment_reports_db_def)
  have accs: "map (\<lambda>a. (acc_id a, account_status a, banned_at a))
       (accounts
          (snd (createReport sample_now nine_harassment_reports_db tenth_harassment_report))) =
     [(''u2'', ''suspended'', None), (''a1'', ''active'', None)]"
    unfolding step
    by (simp add: applySafetyAction_def Let_def createNotification_def withNewReport_frame
        nine_harassment_reports_db_def sample_accounts_def applyAccountUpdate_def emptyUpdate_def)
  from n acts accs show ?thesis by blast
qed

text \<open>
  Claim C8. A request whose \<^verbatim>\<open>reporter_id\<close> equals its \<^verbatim>\<open>reported_user_id\<close> (both
  absent included) is answered with status 400 and leaves the whole store as it was: no
  report row, no notification, no safety action, no change of an account.
\<close>

theorem POST_self_report_rejected:
  assumes "rq_reporter_id body = rq_reported_user_id body"
  shows "http_status (fst (POST now db body)) = 400 \<and> snd (POST now db body) = db"
  using assms by (simp add: POST_def)

theorem POST_self_report_rejected_witness:
  "rq_reporter_id self_report_request = rq_reported_user_id self_report_request
   \<and> http_status (fst (POST sample_now nine_harassment_reports_db self_report_request)) = 400
   \<and> snd (POST sample_now nine_harassment_reports_db self_report_request) =
       nine_harassment_reports_db"
proof -
  have h: "rq_reporter_id self_report_request = rq_reported_user_id self_report_request"
    by (simp add: self_report_request_def)
  from POST_self_report_rejected [OF h, of sample_now nine_harassment_reports_db] h
  show ?thesis by blast
qed

text \<open>
  Claim C9. \<^verbatim>\<open>createReport\<close> returns the report it appends to the table, and the
  priority of that report is critical for the types abuse and harassment, high for
  inappropriate_content and fake_profile, medium for every other type; it is never
  low.
\<close>

theorem createReport_priority_never_low:
  "\<exists>data db'. createReport now db rd = (Some data, db') \<and>
      reports db' = reports db @ [data] \<and>
      priority data =
        (if in_report_type rd = ''abuse'' \<or> in_report_type rd = ''harassment'' then Critical
         else if in_report_type rd = ''inappropriate_content'' \<or>
                 in_report_type rd = ''fake_profile'' then High
         else Medium) \<and>
      priority data \<noteq> Low"
proof -
  have p: "priority (newReportRow now (r_next_id db) rd) =
        (if in_report_type rd = ''abuse'' \<or> in_report_type rd = ''harassment'' then Critical
         else if in_report_type rd = ''inappropriate_content'' \<or>
                 in_report_type rd = ''fake_profile'' then High
         else Medium)"
    by (simp add: newReportRow_def calculateReportPriority_def js_includes_def Let_def)
  then have "priority (newReportRow now (r_next_id db) rd) \<noteq> Low"
    by simp
  with p show ?thesis
    by (simp add: createReport_eq checkForAutomaticActions_reports withNewReport_frame)
qed

theorem createReport_priority_never_low_witness:
  "\<exists>data db'. createReport sample_now two_spam_reports_db spam_report = (Some data, db') \<and>
      reports db' = reports two_spam_reports_db @ [data] \<and>
      priority data = Medium"
proof -
  from createReport_priority_never_low [of sample_now two_spam_reports_db spam_report]
  obtain data db' where
    d: "createReport sample_now two_spam_reports_db spam_report = (Some data, db')"
       "reports db' = reports two_spam_reports_db @ [data]"
       "priority data =
          (if in_report_type spam_report = ''abuse'' \<or>
              in_report_type spam_report = ''harassment'' then Critical
           else if in_report_type spam_report = ''inappropriate_content'' \<or>
                   in_report_type spam_report = ''fake_profile'' then High
           else Medium)"
    by blast
  from d(3) have "priority data = Medium"
    by (simp add: spam_report_def)
  with d(1,2) show ?thesis by blast
qed

end
